theory Spec2Isabelle
  imports Complex_Main "HOL-Library.Log_Nat"
begin

section \<open>Python exceptions\<close>

text \<open>
  Every exception the two source files can raise, themselves or in the arithmetic of the
  interpreter, is a constructor of \<open>error\<close>; a \<open>ValueError\<close> and a
  \<open>FileNotFoundError\<close> carry their message, a \<open>NameError\<close> the name that could not be
  resolved.  A function of the source that can raise returns \<open>error + 'a\<close>, with \<open>Inl\<close>
  for the exception.
\<close>

datatype error =
    ValueError string
  | NameError string
  | FileNotFoundError string
  | ZeroDivisionError
  | OverflowError

text \<open>
  Sequencing of two steps that can raise: the second runs on the value of the first, an
  exception of the first is the result.
\<close>

definition and_then :: "error + 'a \<Rightarrow> ('a \<Rightarrow> error + 'b) \<Rightarrow> error + 'b" where
  "and_then r f = (case r of Inl e \<Rightarrow> Inl e | Inr x \<Rightarrow> f x)"

section \<open>Python numbers\<close>

text \<open>
  A Python \<^verbatim>\<open>int\<close> is an unbounded integer.  A Python \<^verbatim>\<open>float\<close> is an IEEE 754
  binary64 number: a finite one is modelled by its value, a real number \<open>m * 2 powi e\<close>
  with \<open>\<bar>m\<bar> < 2 ^ 53\<close> and \<open>- 1074 \<le> e\<close> of magnitude below \<open>2 ^ 1024\<close> (the sign of a zero
  is not kept); the others are the two infinities and not-a-number.
\<close>

datatype pyfloat = Finite real | PosInf | NegInf | NaN

text \<open>
  The binary exponent of a positive real number, computed from the bit length of an
  integer as \<^verbatim>\<open>int.bit_length\<close> does: \<open>2 powi ilog2 x \<le> x < 2 powi (ilog2 x + 1)\<close>.
\<close>

definition ilog2 :: "real \<Rightarrow> int" where
  "ilog2 x = (if 1 \<le> x then bitlen \<lfloor>x\<rfloor> - 1 else - bitlen (\<lceil>1 / x\<rceil> - 1))"

text \<open>The nearest integer, the even one of the two when both are equally near.\<close>

definition round_half_even :: "real \<Rightarrow> int" where
  "round_half_even x =
     (let f = \<lfloor>x\<rfloor>; r = x - of_int f
      in if r < 1 / 2 then f else if 1 / 2 < r then f + 1 else if even f then f else f + 1)"

text \<open>
  Rounding to nearest, ties to even, in binary64 with the exponent unbounded above: a
  number of binary exponent \<open>k\<close> is rounded to a multiple of \<open>2 powi (k - 52)\<close>, which keeps
  53 significant bits, and never to a finer grid than \<open>2 powi (- 1074)\<close>, the spacing of
  the subnormal numbers.
\<close>

definition round_nearest :: "real \<Rightarrow> real" where
  "round_nearest x =
     (if x = 0 then 0
      else let e = max (ilog2 \<bar>x\<bar> - 52) (- 1074)
           in sgn x * of_int (round_half_even (\<bar>x\<bar> / 2 powi e)) * 2 powi e)"

text \<open>
  The float nearest to a real number: the value of a decimal literal, of \<^verbatim>\<open>float\<close>
  applied to a decimal string (which is what \<^verbatim>\<open>type=float\<close> of the argument parser
  does), and of a sum or difference of two floats.  A result that rounds to magnitude
  \<open>2 ^ 1024\<close> or more is an infinity.
\<close>

definition float_of_real :: "real \<Rightarrow> pyfloat" where
  "float_of_real x =
     (let y = round_nearest x
      in if 2 ^ 1024 \<le> y then PosInf else if y \<le> - (2 ^ 1024) then NegInf else Finite y)"

text \<open>The value \<open>x\<close> is that of a finite float.\<close>

definition is_double :: "real \<Rightarrow> bool" where
  "is_double x = (float_of_real x = Finite x)"

text \<open>Negation, addition and subtraction of two floats.\<close>

fun fneg :: "pyfloat \<Rightarrow> pyfloat" where
  "fneg (Finite x) = Finite (- x)"
| "fneg PosInf = NegInf"
| "fneg NegInf = PosInf"
| "fneg NaN = NaN"

fun fadd :: "pyfloat \<Rightarrow> pyfloat \<Rightarrow> pyfloat" where
  "fadd (Finite x) (Finite y) = float_of_real (x + y)"
| "fadd NaN _ = NaN"
| "fadd _ NaN = NaN"
| "fadd PosInf NegInf = NaN"
| "fadd NegInf PosInf = NaN"
| "fadd PosInf _ = PosInf"
| "fadd _ PosInf = PosInf"
| "fadd NegInf _ = NegInf"
| "fadd _ NegInf = NegInf"

definition fsub :: "pyfloat \<Rightarrow> pyfloat \<Rightarrow> pyfloat" where
  "fsub a b = fadd a (fneg b)"

text \<open>
  True division \<^verbatim>\<open>a / b\<close> of two integers: \<^verbatim>\<open>ZeroDivisionError\<close> on a zero
  divisor, otherwise the float nearest to the exact quotient (a quotient too small for a
  float becomes zero), and \<^verbatim>\<open>OverflowError\<close> when that float would be an infinity.
\<close>

definition int_true_div :: "int \<Rightarrow> int \<Rightarrow> error + pyfloat" where
  "int_true_div a b =
     (if b = 0 then Inl ZeroDivisionError
      else case float_of_real (real_of_int a / real_of_int b) of
             Finite q \<Rightarrow> Inr (Finite q)
           | _ \<Rightarrow> Inl OverflowError)"

text \<open>\<^verbatim>\<open>math.ceil\<close> of a float: an integer, or an exception when the float is not finite.\<close>

fun math_ceil :: "pyfloat \<Rightarrow> error + int" where
  "math_ceil (Finite x) = Inr \<lceil>x\<rceil>"
| "math_ceil NaN = Inl (ValueError ''cannot convert float NaN to integer'')"
| "math_ceil PosInf = Inl OverflowError"
| "math_ceil NegInf = Inl OverflowError"

section \<open>The GPT2 neural module (\<^verbatim>\<open>gpt2_nm.py\<close>)\<close>

subsection \<open>The module namespace\<close>

text \<open>
  The names bound at module level of \<^verbatim>\<open>gpt2_nm.py\<close>, in the order of the file: the
  imports of lines 19 to 26, \<^verbatim>\<open>__all__\<close> and the class \<^verbatim>\<open>GPT2\<close> itself.  A global
  name is resolved when the expression naming it is evaluated; a name that is neither bound
  here nor a builtin raises \<^verbatim>\<open>NameError\<close>.
\<close>

definition module_globals :: "string list" where
  "module_globals =
     [''List'', ''Optional'',
      ''GPT2Config'', ''GPT2Model'',
      ''TrainableNM'',
      ''PretrainedModelInfo'',
      ''ChannelType'', ''NeuralType'',
      ''add_port_docs'',
      ''__all__'',
      ''GPT2'']"

definition lookup_global :: "string list \<Rightarrow> string \<Rightarrow> error + string" where
  "lookup_global ns name = (if name \<in> set ns then Inr name else Inl (NameError name))"

subsection \<open>Objects of the transformers library\<close>

text \<open>
  The transformers library is opaque: a configuration object is recorded by the class that
  was called and by the arguments it was called with, a model object by its class and by
  the way it was obtained.
\<close>

datatype hf_config =
    ConfigKwargs (config_class: string) (kw_vocab_size_or_config_json_file: int)
      (kw_vocab_size: int) (kw_hidden_size: int) (kw_num_hidden_layers: int)
      (kw_num_attention_heads: int) (kw_intermediate_size: int) (kw_hidden_act: string)
      (kw_max_position_embeddings: int)
  | ConfigFromJsonFile (config_class: string) (json_file: string)

datatype hf_model =
    ModelOfConfig (model_class: string) hf_config
  | ModelFromPretrained (model_class: string) string

text \<open>
  A constructed \<^verbatim>\<open>GPT2\<close> instance: \<^verbatim>\<open>self.add_module("bert", model)\<close> registers the
  wrapped model under one name, and \<^verbatim>\<open>forward\<close> calls \<^verbatim>\<open>self.bert\<close>.
\<close>

record gpt2_module =
  submodule_name :: string
  submodule :: hf_model

subsection \<open>The constructor\<close>

text \<open>
  The hyper-parameters of \<^verbatim>\<open>__init__\<close> that its body reads (the dropout
  probabilities, \<^verbatim>\<open>type_vocab_size\<close>, \<^verbatim>\<open>initializer_range\<close> and \<^verbatim>\<open>layer_norm_eps\<close>
  are accepted and never used).
\<close>

record hyper_params =
  hidden_size :: int
  num_hidden_layers :: int
  num_attention_heads :: int
  intermediate_size :: int
  hidden_act :: string
  max_position_embeddings :: int

definition default_hyper_params :: hyper_params where
  "default_hyper_params =
     \<lparr>hidden_size = 768, num_hidden_layers = 12, num_attention_heads = 12,
      intermediate_size = 3072, hidden_act = ''gelu'', max_position_embeddings = 512\<rparr>"

definition only_one_msg :: string where
  "only_one_msg =
     ''Only one of pretrained_model_name, vocab_size, '' @
     ''or config_filename should be passed into the '' @
     ''BERT constructor.''"

definition either_msg :: string where
  "either_msg =
     ''Either pretrained_model_name or vocab_size must'' @
     '' be passed into the BERT constructor''"

text \<open>Lines 121 to 127: the counter of arguments that are not \<^verbatim>\<open>None\<close>.\<close>

definition total_supplied :: "string option \<Rightarrow> string option \<Rightarrow> int option \<Rightarrow> int" where
  "total_supplied pretrained_model_name config_filename vocab_size =
     (let total = 0;
          total = (if pretrained_model_name \<noteq> None then total + 1 else total);
          total = (if config_filename \<noteq> None then total + 1 else total);
          total = (if vocab_size \<noteq> None then total + 1 else total)
      in total)"

text \<open>
  \<^verbatim>\<open>GPT2.__init__\<close>, lines 117 to 163, over the namespace \<open>ns\<close> in which its global
  names are resolved (\<open>module_globals\<close> for the module as it is).  The base-class
  constructor and \<^verbatim>\<open>model.to(self._device)\<close> belong to the framework and are taken
  to return.  In a call expression the callee is evaluated first, so the class name is
  looked up before anything else of the call.
\<close>

definition GPT2_init ::
  "string list \<Rightarrow> string option \<Rightarrow> string option \<Rightarrow> int option \<Rightarrow> hyper_params
     \<Rightarrow> error + gpt2_module" where
  "GPT2_init ns pretrained_model_name config_filename vocab_size hp =
     (if total_supplied pretrained_model_name config_filename vocab_size \<noteq> 1
      then Inl (ValueError only_one_msg)
      else and_then
        (case vocab_size of
           Some v \<Rightarrow>
             and_then (lookup_global ns ''BertConfig'') (\<lambda>cc.
               let config = ConfigKwargs cc v v (hidden_size hp) (num_hidden_layers hp)
                     (num_attention_heads hp) (intermediate_size hp) (hidden_act hp)
                     (max_position_embeddings hp)
               in and_then (lookup_global ns ''BertModel'') (\<lambda>mc.
                    Inr (ModelOfConfig mc config)))
         | None \<Rightarrow>
             (case pretrained_model_name of
                Some name \<Rightarrow>
                  and_then (lookup_global ns ''BertModel'') (\<lambda>mc.
                    Inr (ModelFromPretrained mc name))
              | None \<Rightarrow>
                  (case config_filename of
                     Some file \<Rightarrow>
                       and_then (lookup_global ns ''BertConfig'') (\<lambda>cc.
                         let config = ConfigFromJsonFile cc file
                         in and_then (lookup_global ns ''BertModel'') (\<lambda>mc.
                              Inr (ModelOfConfig mc config)))
                   | None \<Rightarrow> Inl (ValueError either_msg))))
        (\<lambda>model. Inr \<lparr>submodule_name = ''bert'', submodule = model\<rparr>))"

text \<open>The number of arguments that are not \<^verbatim>\<open>None\<close>, counted as the claim words it.\<close>

definition supplied_count :: "string option \<Rightarrow> string option \<Rightarrow> int option \<Rightarrow> nat" where
  "supplied_count pretrained_model_name config_filename vocab_size =
     length (filter (\<lambda>b. b)
       [pretrained_model_name \<noteq> None, config_filename \<noteq> None, vocab_size \<noteq> None])"

fun is_ValueError :: "error + 'a \<Rightarrow> bool" where
  "is_ValueError (Inl (ValueError _)) = True"
| "is_ValueError _ = False"

fun is_NameError :: "error + 'a \<Rightarrow> bool" where
  "is_NameError (Inl (NameError _)) = True"
| "is_NameError _ = False"

section \<open>The training script (\<^verbatim>\<open>joint_intent_slot_with_bert.py\<close>)\<close>

subsection \<open>Command-line arguments\<close>

text \<open>
  The namespace returned by \<^verbatim>\<open>parser.parse_args()\<close>, one field for each argument of
  lines 43 to 104.  An argument of \<^verbatim>\<open>type=int\<close> is an unbounded integer, one of
  \<^verbatim>\<open>type=float\<close> a float, which can be an infinity or not-a-number.
\<close>

record args =
  data_dir :: string
  work_dir :: string
  checkpoint_dir :: "string option"
  pretrained_model_name :: string
  bert_checkpoint :: "string option"
  bert_config :: "string option"
  vocab_file :: "string option"
  tokenizer :: string
  tokenizer_model :: "string option"
  train_file_prefix :: string
  eval_file_prefix :: string
  num_epochs :: int
  batch_size :: int
  max_seq_length :: int
  num_gpus :: int
  optimizer_kind :: string
  amp_opt_level :: string
  lr :: pyfloat
  lr_policy :: string
  lr_warmup_proportion :: pyfloat
  weight_decay :: pyfloat
  fc_dropout :: pyfloat
  intent_loss_weight :: pyfloat
  class_balancing :: string
  do_lower_case :: bool
  shuffle_data :: bool
  ignore_start_end :: bool
  ignore_extra_tokens :: bool
  none_slot_label :: string
  pad_label :: int
  num_train_samples :: int
  num_eval_samples :: int
  save_epoch_freq :: int
  save_step_freq :: int
  local_rank :: "int option"

text \<open>
  Truth value of an argument that is \<^verbatim>\<open>None\<close> or a string: \<^verbatim>\<open>None\<close> and the empty
  string are false.  Such an argument is passed on as it is, so the objects below keep it
  as an optional string.
\<close>

fun truthy :: "string option \<Rightarrow> bool" where
  "truthy None = False"
| "truthy (Some s) = (s \<noteq> [])"

subsection \<open>Objects handed to the framework\<close>

text \<open>
  The framework is opaque.  Each of its objects is recorded by the constructor that was
  called and the arguments it received, which is all the script decides.
\<close>

record factory_kwargs =
  nf_local_rank :: "int option"
  nf_optimization_level :: string
  nf_log_dir :: string
  nf_checkpoint_dir :: "string option"
  nf_create_tb_writer :: bool
  nf_add_time_to_log_dir :: bool

datatype tb_writer = TbWriterOf factory_kwargs

datatype encoder =
    MegatronBERT "string option" "string option"
  | HuggingfaceModel "string option" string

record tokenizer_kwargs =
  tok_tokenizer_name :: string
  tok_pretrained_model_name :: string
  tok_tokenizer_model :: "string option"
  tok_vocab_file :: "string option"
  tok_do_lower_case :: bool

record data_desc =
  dd_data_dir :: string
  dd_pad_label :: int
  num_intents :: int
  num_slots :: int
  intent_weights :: "pyfloat list"
  slot_weights :: "pyfloat list"
  intents_label_ids :: "(string \<times> int) list"
  slots_label_ids :: "(string \<times> int) list"

record data_layer_kwargs =
  dl_input_file :: string
  dl_slot_file :: string
  dl_pad_label :: int
  dl_tokenizer :: tokenizer_kwargs
  dl_max_seq_length :: int
  dl_num_samples :: int
  dl_shuffle :: bool
  dl_batch_size :: int
  dl_ignore_extra_tokens :: bool
  dl_ignore_start_end :: bool
  dl_do_lower_case :: bool

text \<open>
  Neural modules.  \<open>MegatronBERT config_file vocab_file\<close> and
  \<open>HuggingfaceModel bert_config pretrained_model_name\<close> are the two encoders;
  \<open>JointIntentSlotClassifier hidden_size num_intents num_slots dropout\<close>;
  \<open>CrossEntropyLossNM logits_ndim weight\<close>, the weight \<open>None\<close> when none is given;
  \<open>LossAggregatorNM num_inputs weights\<close>.
\<close>

datatype nmodule =
    Encoder encoder
  | BertJointIntentSlotDataLayer data_layer_kwargs
  | JointIntentSlotClassifier int int int pyfloat
  | CrossEntropyLossNM int "pyfloat list option"
  | LossAggregatorNM int "pyfloat list"

text \<open>
  Calling a neural module on tensors does not compute: it returns the description of an
  output port, which records the module and the tensor bound to each of its input ports.
\<close>

datatype nmtensor =
  NmTensor (producer: nmodule) (port: string) (inputs: "(string \<times> nmtensor) list")

datatype callback =
    SimpleLossLoggerCallback "nmtensor list" tb_writer int
  | EvaluatorCallback "nmtensor list" "(string \<times> int) list" "(string \<times> int) list"
      string tb_writer int
  | CheckpointCallback string int int

datatype lr_policy_fn = get_lr_policy string int pyfloat

record train_kwargs =
  tr_tensors_to_optimize :: "nmtensor list"
  tr_callbacks :: "callback list"
  tr_lr_policy :: lr_policy_fn
  tr_optimizer :: string
  tr_num_epochs :: int
  tr_lr :: pyfloat
  tr_weight_decay :: pyfloat

text \<open>What the script has done so far, in order.\<close>

datatype event =
    Factory factory_kwargs
  | Module nmodule
  | Tokenizer tokenizer_kwargs
  | RestoreFrom encoder "string option"
  | DataDesc data_desc
  | Callback callback
  | LrPolicy lr_policy_fn
  | Train train_kwargs

subsection \<open>The world outside the script\<close>

text \<open>
  What the script reads from the file system and from objects of the framework:
  \<^verbatim>\<open>os.path.exists\<close>, \<^verbatim>\<open>len(data_layer)\<close> (never negative), \<^verbatim>\<open>model.hidden_size\<close>,
  the data description that \<^verbatim>\<open>JointIntentSlotDataDesc\<close> reads from the data directory,
  and the attributes \<^verbatim>\<open>work_dir\<close> and \<^verbatim>\<open>checkpoint_dir\<close> of the factory.
\<close>

record env =
  path_exists :: "string \<Rightarrow> bool"
  data_layer_len :: "data_layer_kwargs \<Rightarrow> nat"
  model_hidden_size :: "encoder \<Rightarrow> int"
  JointIntentSlotDataDesc :: "string \<Rightarrow> string \<Rightarrow> int \<Rightarrow> data_desc"
  factory_work_dir :: "factory_kwargs \<Rightarrow> string"
  factory_checkpoint_dir :: "factory_kwargs \<Rightarrow> string"

subsection \<open>Module-level statements\<close>

text \<open>Lines 111 to 120.\<close>

definition nf :: "args \<Rightarrow> factory_kwargs" where
  "nf args =
     \<lparr>nf_local_rank = local_rank args,
      nf_optimization_level = amp_opt_level args,
      nf_log_dir = work_dir args,
      nf_checkpoint_dir = checkpoint_dir args,
      nf_create_tb_writer = True,
      nf_add_time_to_log_dir = True\<rparr>"

definition megatron_msg :: string where
  "megatron_msg =
     ''Config file, checkpoint and vocabulary file should be provided for Megatron models.''"

text \<open>Lines 122 to 129.\<close>

definition model :: "args \<Rightarrow> error + encoder" where
  "model args =
     (if pretrained_model_name args = ''megatron'' then
        if \<not> (truthy (bert_config args) \<and> truthy (bert_checkpoint args) \<and>
                truthy (vocab_file args))
        then Inl (FileNotFoundError megatron_msg)
        else Inr (MegatronBERT (bert_config args) (vocab_file args))
      else Inr (HuggingfaceModel (bert_config args) (pretrained_model_name args)))"

text \<open>Lines 131 to 137.\<close>

definition get_tokenizer :: "args \<Rightarrow> tokenizer_kwargs" where
  "get_tokenizer args =
     \<lparr>tok_tokenizer_name = tokenizer args,
      tok_pretrained_model_name = pretrained_model_name args,
      tok_tokenizer_model = tokenizer_model args,
      tok_vocab_file = vocab_file args,
      tok_do_lower_case = (pretrained_model_name args = ''megatron'')\<rparr>"

text \<open>Lines 150 to 152.\<close>

definition classifier :: "args \<Rightarrow> int \<Rightarrow> data_desc \<Rightarrow> nmodule" where
  "classifier args hidden desc =
     JointIntentSlotClassifier hidden (num_intents desc) (num_slots desc) (fc_dropout args)"

text \<open>Lines 154 to 160.\<close>

definition intent_loss_fn :: "args \<Rightarrow> data_desc \<Rightarrow> nmodule" where
  "intent_loss_fn args desc =
     (if class_balancing args = ''weighted_loss''
      then CrossEntropyLossNM 2 (Some (intent_weights desc))
      else CrossEntropyLossNM 2 None)"

definition slot_loss_fn :: "args \<Rightarrow> data_desc \<Rightarrow> nmodule" where
  "slot_loss_fn args desc =
     (if class_balancing args = ''weighted_loss''
      then CrossEntropyLossNM 3 (Some (slot_weights desc))
      else CrossEntropyLossNM 3 None)"

text \<open>Line 162: the second weight is the float difference \<^verbatim>\<open>1.0 - w\<close>.\<close>

definition total_loss_fn :: "args \<Rightarrow> nmodule" where
  "total_loss_fn args =
     LossAggregatorNM 2 [intent_loss_weight args, fsub (Finite 1) (intent_loss_weight args)]"

subsection \<open>create\_pipeline\<close>

text \<open>The module-level variables that \<^verbatim>\<open>create_pipeline\<close> reads.\<close>

record globals =
  gl_args :: args
  gl_data_desc :: data_desc
  gl_tokenizer :: tokenizer_kwargs
  gl_model :: encoder
  gl_classifier :: nmodule
  gl_intent_loss_fn :: nmodule
  gl_slot_loss_fn :: nmodule
  gl_total_loss_fn :: nmodule

record pipeline =
  tensors_to_evaluate :: "nmtensor list"
  total_loss :: nmtensor
  steps_per_epoch :: int
  data_layer :: nmodule

text \<open>
  Lines 167 to 183: the data layer that a call constructs.  The parameters of
  \<^verbatim>\<open>create_pipeline\<close> keep their names; \<^verbatim>\<open>batch_size\<close> and \<^verbatim>\<open>num_gpus\<close> are
  the parameters here, not the command-line arguments of the same names.
\<close>

definition data_layer_of ::
  "globals \<Rightarrow> int \<Rightarrow> int \<Rightarrow> string \<Rightarrow> bool \<Rightarrow> data_layer_kwargs" where
  "data_layer_of gl = (\<lambda>num_samples batch_size data_prefix is_training.
      let data_file = dd_data_dir (gl_data_desc gl) @ ''/'' @ data_prefix @ ''.tsv'';
          slot_file = dd_data_dir (gl_data_desc gl) @ ''/'' @ data_prefix @ ''_slots.tsv'';
          shuffle = (if is_training then shuffle_data (gl_args gl) else False)
      in \<lparr>dl_input_file = data_file,
          dl_slot_file = slot_file,
          dl_pad_label = dd_pad_label (gl_data_desc gl),
          dl_tokenizer = gl_tokenizer gl,
          dl_max_seq_length = max_seq_length (gl_args gl),
          dl_num_samples = num_samples,
          dl_shuffle = shuffle,
          dl_batch_size = batch_size,
          dl_ignore_extra_tokens = ignore_extra_tokens (gl_args gl),
          dl_ignore_start_end = ignore_start_end (gl_args gl),
          dl_do_lower_case = do_lower_case (gl_args gl)\<rparr>)"

text \<open>
  \<^verbatim>\<open>create_pipeline\<close>, lines 165 to 219.  The result is the objects constructed by the
  call and either the exception raised or the four values returned.  Line 195 divides two
  integers by true division, which raises or returns a float, and \<^verbatim>\<open>math.ceil\<close> turns
  that float into the integer \<^verbatim>\<open>steps_per_epoch\<close>.
\<close>

definition create_pipeline ::
  "env \<Rightarrow> globals \<Rightarrow> int \<Rightarrow> int \<Rightarrow> string \<Rightarrow> bool \<Rightarrow> int
     \<Rightarrow> event list \<times> (error + pipeline)" where
  "create_pipeline env gl = (\<lambda>num_samples batch_size data_prefix is_training num_gpus.
      let data_layer = BertJointIntentSlotDataLayer
            (data_layer_of gl num_samples batch_size data_prefix is_training);
          constructed = [Module data_layer];
          input_data = (\<lambda>name. NmTensor data_layer name []);
          data_size = int (data_layer_len env
            (data_layer_of gl num_samples batch_size data_prefix is_training));
          batch_size = (if data_size < batch_size then data_size else batch_size)
      in case and_then (int_true_div data_size (batch_size * num_gpus)) math_ceil of
           Inl e \<Rightarrow> (constructed, Inl e)
         | Inr steps \<Rightarrow>
           let steps_per_epoch = steps;
               hidden_states = NmTensor (Encoder (gl_model gl)) ''hidden_states''
                 [(''input_ids'', input_data ''input_ids''),
                  (''token_type_ids'', input_data ''input_type_ids''),
                  (''attention_mask'', input_data ''input_mask'')];
               intent_logits = NmTensor (gl_classifier gl) ''intent_logits''
                 [(''hidden_states'', hidden_states)];
               slot_logits = NmTensor (gl_classifier gl) ''slot_logits''
                 [(''hidden_states'', hidden_states)];
               intent_loss = NmTensor (gl_intent_loss_fn gl) ''loss''
                 [(''logits'', intent_logits), (''labels'', input_data ''intents'')];
               slot_loss = NmTensor (gl_slot_loss_fn gl) ''loss''
                 [(''logits'', slot_logits), (''labels'', input_data ''slots''),
                  (''loss_mask'', input_data ''loss_mask'')];
               total_loss = NmTensor (gl_total_loss_fn gl) ''loss''
                 [(''loss_1'', intent_loss), (''loss_2'', slot_loss)];
               tensors_to_evaluate =
                 (if is_training then [total_loss, intent_loss, slot_loss]
                  else [intent_logits, slot_logits, input_data ''intents'',
                        input_data ''slots'', input_data ''subtokens_mask''])
           in (constructed,
               Inr \<lparr>tensors_to_evaluate = tensors_to_evaluate, total_loss = total_loss,
                    steps_per_epoch = steps_per_epoch, data_layer = data_layer\<rparr>))"

subsection \<open>The script\<close>

text \<open>
  The module-level variables of lines 143 to 162 that \<^verbatim>\<open>create_pipeline\<close> reads, for
  the encoder that lines 122 to 129 selected.
\<close>

definition script_globals :: "env \<Rightarrow> args \<Rightarrow> encoder \<Rightarrow> globals" where
  "script_globals env args enc =
     (let hidden = model_hidden_size env enc;
          desc = JointIntentSlotDataDesc env (data_dir args) (none_slot_label args)
                   (pad_label args)
      in \<lparr>gl_args = args,
          gl_data_desc = desc,
          gl_tokenizer = get_tokenizer args,
          gl_model = enc,
          gl_classifier = classifier args hidden desc,
          gl_intent_loss_fn = intent_loss_fn args desc,
          gl_slot_loss_fn = slot_loss_fn args desc,
          gl_total_loss_fn = total_loss_fn args\<rparr>)"

text \<open>
  Lines 238 to 279, for the two pipelines that lines 222 to 235 built: the callbacks, the
  learning-rate policy and the call of \<^verbatim>\<open>nf.train\<close>.
\<close>

definition train_callback :: "args \<Rightarrow> pipeline \<Rightarrow> callback" where
  "train_callback args train =
     SimpleLossLoggerCallback (tensors_to_evaluate train) (TbWriterOf (nf args))
       (steps_per_epoch train)"

definition eval_callback :: "env \<Rightarrow> args \<Rightarrow> globals \<Rightarrow> pipeline \<Rightarrow> pipeline \<Rightarrow> callback" where
  "eval_callback env args gl train eval =
     EvaluatorCallback (tensors_to_evaluate eval)
       (intents_label_ids (gl_data_desc gl)) (slots_label_ids (gl_data_desc gl))
       (factory_work_dir env (nf args) @ ''/graphs'') (TbWriterOf (nf args))
       (steps_per_epoch train)"

definition ckpt_callback :: "env \<Rightarrow> args \<Rightarrow> callback" where
  "ckpt_callback env args =
     CheckpointCallback (factory_checkpoint_dir env (nf args)) (save_epoch_freq args)
       (save_step_freq args)"

definition lr_policy_fn :: "args \<Rightarrow> pipeline \<Rightarrow> lr_policy_fn" where
  "lr_policy_fn args train =
     get_lr_policy (lr_policy args) (num_epochs args * steps_per_epoch train)
       (lr_warmup_proportion args)"

definition nf_train :: "env \<Rightarrow> args \<Rightarrow> globals \<Rightarrow> pipeline \<Rightarrow> pipeline \<Rightarrow> train_kwargs" where
  "nf_train env args gl train eval =
     \<lparr>tr_tensors_to_optimize = [total_loss train],
      tr_callbacks = [train_callback args train, eval_callback env args gl train eval,
                      ckpt_callback env args],
      tr_lr_policy = lr_policy_fn args train,
      tr_optimizer = optimizer_kind args,
      tr_num_epochs = num_epochs args,
      tr_lr = lr args,
      tr_weight_decay = weight_decay args\<rparr>"

text \<open>
  The whole script, lines 106 to 279, after the arguments are parsed: the objects it has
  constructed, in order, and the exception it stopped with, if any.
\<close>

definition script :: "env \<Rightarrow> args \<Rightarrow> event list \<times> error option" where
  "script env args =
     (if \<not> path_exists env (data_dir args)
      then ([], Some (ValueError (''Data not found at '' @ data_dir args)))
      else
        let trace = [Factory (nf args)] in
        case model args of
          Inl e \<Rightarrow> (trace, Some e)
        | Inr enc \<Rightarrow>
            let trace = trace @ [Module (Encoder enc), Tokenizer (get_tokenizer args)];
                trace = (if truthy (bert_checkpoint args)
                         then trace @ [RestoreFrom enc (bert_checkpoint args)]
                         else trace);
                gl = script_globals env args enc;
                trace = trace @ [DataDesc (gl_data_desc gl), Module (gl_classifier gl),
                         Module (gl_intent_loss_fn gl), Module (gl_slot_loss_fn gl),
                         Module (gl_total_loss_fn gl)]
            in
            case create_pipeline env gl (num_train_samples args) (batch_size args)
                   (train_file_prefix args) True (num_gpus args) of
              (constructed, Inl e) \<Rightarrow> (trace @ constructed, Some e)
            | (constructed, Inr train) \<Rightarrow>
                let trace = trace @ constructed in
                case create_pipeline env gl (num_eval_samples args) (batch_size args)
                       (eval_file_prefix args) False (num_gpus args) of
                  (constructed, Inl e) \<Rightarrow> (trace @ constructed, Some e)
                | (constructed, Inr eval) \<Rightarrow>
                    (trace @ constructed @
                       [Callback (train_callback args train),
                        Callback (eval_callback env args gl train eval),
                        Callback (ckpt_callback env args),
                        LrPolicy (lr_policy_fn args train),
                        Train (nf_train env args gl train eval)],
                     None))"

subsection \<open>A concrete run\<close>

text \<open>
  The defaults of the argument parser, a default written as a decimal literal being the
  float nearest to it, and a world in which every path exists, every data layer holds \<open>n\<close>
  examples and the encoder has 768 hidden units.
\<close>

definition default_args :: args where
  "default_args =
     \<lparr>data_dir = ''data/atis'', work_dir = ''outputs'', checkpoint_dir = None,
      pretrained_model_name = ''bert-base-uncased'', bert_checkpoint = None,
      bert_config = None, vocab_file = None, tokenizer = ''nemobert'',
      tokenizer_model = None, train_file_prefix = ''train'', eval_file_prefix = ''test'',
      num_epochs = 10, batch_size = 128, max_seq_length = 50, num_gpus = 1,
      optimizer_kind = ''adam'', amp_opt_level = ''O0'',
      lr = float_of_real (2 / 100000), lr_policy = ''WarmupAnnealing'',
      lr_warmup_proportion = float_of_real (1 / 10), weight_decay = float_of_real (1 / 100),
      fc_dropout = float_of_real (1 / 10), intent_loss_weight = float_of_real (6 / 10),
      class_balancing = ''regular'', do_lower_case = False, shuffle_data = True,
      ignore_start_end = True, ignore_extra_tokens = True, none_slot_label = ''O'',
      pad_label = - 1, num_train_samples = - 1, num_eval_samples = - 1,
      save_epoch_freq = 1, save_step_freq = - 1, local_rank = None\<rparr>"

definition atis_desc :: data_desc where
  "atis_desc =
     \<lparr>dd_data_dir = ''data/atis'', dd_pad_label = - 1, num_intents = 2, num_slots = 3,
      intent_weights = [Finite 1, Finite 1], slot_weights = [Finite 1, Finite 1, Finite 1],
      intents_label_ids = [(''flight'', 0), (''airfare'', 1)],
      slots_label_ids = [(''O'', 0), (''B-city'', 1), (''I-city'', 2)]\<rparr>"

definition small_world :: "nat \<Rightarrow> env" where
  "small_world n =
     \<lparr>path_exists = (\<lambda>path. True),
      data_layer_len = (\<lambda>kw. n),
      model_hidden_size = (\<lambda>enc. 768),
      JointIntentSlotDataDesc = (\<lambda>dir none_slot pad. atis_desc),
      factory_work_dir = (\<lambda>kw. nf_log_dir kw),
      factory_checkpoint_dir = (\<lambda>kw. nf_log_dir kw @ ''/checkpoints'')\<rparr>"

definition no_data_world :: env where
  "no_data_world = (small_world 100)\<lparr>path_exists := (\<lambda>path. False)\<rparr>"

subsection \<open>Reading the objects and the trace\<close>

text \<open>An argument is missing, in the words of the specification: \<^verbatim>\<open>None\<close> or empty.\<close>

definition missing :: "string option \<Rightarrow> bool" where
  "missing x = (x = None \<or> x = Some [])"

text \<open>The encoders constructed in a trace, in order.\<close>

fun encoders :: "event list \<Rightarrow> encoder list" where
  "encoders [] = []"
| "encoders (Module (Encoder enc) # es) = enc # encoders es"
| "encoders (e # es) = encoders es"

text \<open>The weights a loss aggregator was constructed with.\<close>

fun aggregator_weights :: "nmodule \<Rightarrow> pyfloat list" where
  "aggregator_weights (LossAggregatorNM n ws) = ws"
| "aggregator_weights _ = []"

text \<open>
  The wiring of the graph that produces a tensor: one entry
  \<open>(source module, output port, input port, consuming module)\<close> for every tensor bound to
  an input port, those of the producers first.
\<close>

fun wiring :: "nmtensor \<Rightarrow> (nmodule \<times> string \<times> string \<times> nmodule) list" where
  "wiring (NmTensor m p ins) =
     concat (map (\<lambda>kt. wiring (snd kt) @ [(producer (snd kt), port (snd kt), fst kt, m)]) ins)"

text \<open>
  The \<^verbatim>\<open>step_freq\<close> of every loss-logger callback constructed in a trace: in a
  completed run, the single value \<^verbatim>\<open>train_steps_per_epoch\<close>.
\<close>

fun step_freqs :: "event list \<Rightarrow> int list" where
  "step_freqs [] = []"
| "step_freqs (Callback (SimpleLossLoggerCallback ts w n) # es) = n # step_freqs es"
| "step_freqs (e # es) = step_freqs es"

text \<open>The \<^verbatim>\<open>steps_per_epoch\<close> that a call of \<^verbatim>\<open>create_pipeline\<close> returned.\<close>

definition returned_steps :: "event list \<times> (error + pipeline) \<Rightarrow> error + int" where
  "returned_steps r = and_then (snd r) (\<lambda>p. Inr (steps_per_epoch p))"

text \<open>A run with a Megatron encoder and all three of its files given.\<close>

definition megatron_args :: args where
  "megatron_args =
     default_args\<lparr>pretrained_model_name := ''megatron'', bert_config := Some ''bert.json'',
       bert_checkpoint := Some ''bert.pt'', vocab_file := Some ''vocab.txt''\<rparr>"

section \<open>Properties of the GPT2 constructor\<close>

lemma total_supplied_count:
  "total_supplied p c v = int (supplied_count p c v)"
  by (simp add: total_supplied_def supplied_count_def)

lemma Bert_names_unbound:
  "lookup_global module_globals ''BertConfig'' = Inl (NameError ''BertConfig'')"
  "lookup_global module_globals ''BertModel'' = Inl (NameError ''BertModel'')"
  by (simp_all add: lookup_global_def module_globals_def)

lemma GPT2_init_one_supplied:
  assumes "total_supplied p c v = 1"
  shows "GPT2_init module_globals p c v hp =
           Inl (NameError (if v \<noteq> None then ''BertConfig''
                           else if p \<noteq> None then ''BertModel'' else ''BertConfig''))"
proof (cases v)
  case (Some n)
  then show ?thesis
    using assms by (simp add: GPT2_init_def and_then_def Bert_names_unbound)
next
  case None
  note v = this
  show ?thesis
  proof (cases p)
    case (Some n)
    then show ?thesis
      using assms v by (simp add: GPT2_init_def and_then_def Bert_names_unbound)
  next
    case None
    then obtain f where "c = Some f"
      using assms v by (cases c) (simp_all add: total_supplied_def)
    then show ?thesis
      using assms v None by (simp add: GPT2_init_def and_then_def Bert_names_unbound)
  qed
qed

text \<open>
  Claim C2.  The constructor raises a \<^verbatim>\<open>ValueError\<close> exactly when the number of
  arguments among \<^verbatim>\<open>pretrained_model_name\<close>, \<^verbatim>\<open>config_filename\<close> and
  \<^verbatim>\<open>vocab_size\<close> that are not \<^verbatim>\<open>None\<close> differs from one; with exactly one of them
  supplied no \<^verbatim>\<open>ValueError\<close> is raised.
\<close>

theorem GPT2_init_ValueError_iff:
  "is_ValueError (GPT2_init module_globals p c v hp) = (supplied_count p c v \<noteq> 1)"
proof (cases "total_supplied p c v = 1")
  case True
  then have "supplied_count p c v = 1"
    by (simp add: total_supplied_count)
  then show ?thesis
    using GPT2_init_one_supplied [OF True, of hp] by simp
next
  case False
  then have "supplied_count p c v \<noteq> 1"
    by (simp add: total_supplied_count)
  then show ?thesis
    using False by (simp add: GPT2_init_def)
qed

text \<open>
  Claim C3.  With exactly one of the three arguments supplied the constructor fails with a
  \<^verbatim>\<open>NameError\<close>, since \<^verbatim>\<open>BertConfig\<close> and \<^verbatim>\<open>BertModel\<close> are not bound in the
  module; the \<^verbatim>\<open>ValueError\<close> of the trailing \<^verbatim>\<open>else\<close> branch is never the result,
  and no call of the constructor returns an instance.
\<close>

theorem GPT2_init_never_constructs:
  "(if supplied_count p c v = 1
    then is_NameError (GPT2_init module_globals p c v hp)
    else GPT2_init module_globals p c v hp = Inl (ValueError only_one_msg))
   \<and> GPT2_init module_globals p c v hp \<noteq> Inl (ValueError either_msg)
   \<and> GPT2_init module_globals p c v hp \<noteq> Inr m"
proof (cases "total_supplied p c v = 1")
  case True
  then have "supplied_count p c v = 1"
    by (simp add: total_supplied_count)
  then show ?thesis
    using GPT2_init_one_supplied [OF True, of hp] by simp
next
  case False
  then have "supplied_count p c v \<noteq> 1"
    by (simp add: total_supplied_count)
  moreover have "only_one_msg \<noteq> either_msg"
    by (simp add: only_one_msg_def either_msg_def)
  ultimately show ?thesis
    using False by (simp add: GPT2_init_def)
qed

text \<open>
  Claim C4.  The module is documented as a wrapper of the GPT-2 model and imports
  \<^verbatim>\<open>GPT2Config\<close> and \<^verbatim>\<open>GPT2Model\<close>, but its constructor names \<^verbatim>\<open>BertModel\<close>:
  \<^verbatim>\<open>GPT2(pretrained_model_name="gpt2")\<close> raises \<^verbatim>\<open>NameError\<close>, and in a namespace
  that also binds the two BERT classes the instance wraps a \<^verbatim>\<open>BertModel\<close>.
\<close>

theorem GPT2_init_instantiates_Bert:
  "GPT2_init module_globals (Some ''gpt2'') None None default_hyper_params
     = Inl (NameError ''BertModel'')
   \<and> GPT2_init (''BertConfig'' # ''BertModel'' # module_globals) (Some ''gpt2'') None None
       default_hyper_params
     = Inr \<lparr>submodule_name = ''bert'', submodule = ModelFromPretrained ''BertModel'' ''gpt2''\<rparr>"
  by (simp add: GPT2_init_def total_supplied_def and_then_def lookup_global_def
      module_globals_def)

section \<open>Properties of the arithmetic\<close>

text \<open>The binary exponent: its two bounds, and that they determine it.\<close>

lemma bitlen_pos: "0 < n \<Longrightarrow> 1 \<le> bitlen n"
  by (simp add: bitlen_alt_def)

lemma ilog2_lower:
  assumes "0 < x"
  shows "2 powi ilog2 x \<le> x"
proof (cases "1 \<le> x")
  case True
  then have n: "0 < \<lfloor>x\<rfloor>" by simp
  have b: "1 \<le> bitlen \<lfloor>x\<rfloor>" using n by (rule bitlen_pos)
  have "(2::int) ^ nat (bitlen \<lfloor>x\<rfloor> - 1) \<le> \<lfloor>x\<rfloor>"
    using bitlen_bounds [OF n] by simp
  then have "2 ^ nat (bitlen \<lfloor>x\<rfloor> - 1) \<le> real_of_int \<lfloor>x\<rfloor>"
    using of_int_le_iff [of "2 ^ nat (bitlen \<lfloor>x\<rfloor> - 1)" "\<lfloor>x\<rfloor>", where ?'a = real] by simp
  moreover have "real_of_int \<lfloor>x\<rfloor> \<le> x" by simp
  ultimately have "2 ^ nat (bitlen \<lfloor>x\<rfloor> - 1) \<le> x" by linarith
  then show ?thesis
    using True b by (simp add: ilog2_def power_int_def)
next
  case False
  define c where "c = \<lceil>1 / x\<rceil>"
  define j where "j = bitlen (c - 1)"
  have y: "1 < 1 / x" using False assms by simp
  then have c: "0 < c - 1" unfolding c_def by (simp add: less_ceiling_iff)
  have j: "1 \<le> j" unfolding j_def using c by (rule bitlen_pos)
  have "c - 1 < 2 ^ nat j"
    using bitlen_bounds [OF c] by (simp add: j_def)
  then have "c \<le> 2 ^ nat j" by simp
  then have "real_of_int c \<le> 2 ^ nat j"
    using of_int_le_iff [of c "2 ^ nat j", where ?'a = real] by simp
  moreover have "1 / x \<le> real_of_int c"
    unfolding c_def by simp
  ultimately have "1 / x \<le> 2 ^ nat j" by linarith
  then have "1 / 2 ^ nat j \<le> x"
    using assms by (simp add: field_simps)
  moreover have "ilog2 x = - j"
    using False by (simp add: ilog2_def j_def c_def)
  ultimately show ?thesis
    using j by (simp add: power_int_def field_simps)
qed

lemma ilog2_upper:
  assumes "0 < x"
  shows "x < 2 powi (ilog2 x + 1)"
proof (cases "1 \<le> x")
  case True
  then have n: "0 < \<lfloor>x\<rfloor>" by simp
  have b: "1 \<le> bitlen \<lfloor>x\<rfloor>" using n by (rule bitlen_pos)
  have "\<lfloor>x\<rfloor> < 2 ^ nat (bitlen \<lfloor>x\<rfloor>)"
    using bitlen_bounds [OF n] by simp
  then have "\<lfloor>x\<rfloor> + 1 \<le> 2 ^ nat (bitlen \<lfloor>x\<rfloor>)" by simp
  then have "real_of_int (\<lfloor>x\<rfloor> + 1) \<le> 2 ^ nat (bitlen \<lfloor>x\<rfloor>)"
    using of_int_le_iff [of "\<lfloor>x\<rfloor> + 1" "2 ^ nat (bitlen \<lfloor>x\<rfloor>)", where ?'a = real] by simp
  moreover have "x < real_of_int (\<lfloor>x\<rfloor> + 1)" by linarith
  ultimately have "x < 2 ^ nat (bitlen \<lfloor>x\<rfloor>)" by linarith
  then show ?thesis
    using True b by (simp add: ilog2_def power_int_def)
next
  case False
  define c where "c = \<lceil>1 / x\<rceil>"
  define j where "j = bitlen (c - 1)"
  have y: "1 < 1 / x" using False assms by simp
  then have c: "0 < c - 1" unfolding c_def by (simp add: less_ceiling_iff)
  have j: "1 \<le> j" unfolding j_def using c by (rule bitlen_pos)
  have "2 ^ nat (j - 1) \<le> c - 1"
    using bitlen_bounds [OF c] by (simp add: j_def)
  then have "2 ^ nat (j - 1) \<le> real_of_int (c - 1)"
    using of_int_le_iff [of "2 ^ nat (j - 1)" "c - 1", where ?'a = real] by simp
  moreover have "real_of_int (c - 1) < 1 / x"
    unfolding c_def by linarith
  ultimately have "2 ^ nat (j - 1) < 1 / x" by linarith
  then have "x < 1 / 2 ^ nat (j - 1)"
    using assms by (simp add: field_simps)
  then have lt: "x < 1 / 2 ^ nat (j - 1)" .
  have "ilog2 x + 1 = - (j - 1)"
    using False by (simp add: ilog2_def j_def c_def)
  then have "2 powi (ilog2 x + 1) = (2::real) powi (- (j - 1))" by simp
  also have "\<dots> = 1 / 2 powi (j - 1)" by (rule power_int_minus_divide)
  also have "\<dots> = 1 / 2 ^ nat (j - 1)" using j by (simp add: power_int_nonneg_exp)
  finally show ?thesis using lt by simp
qed

lemma ilog2_eqI:
  assumes "2 powi k \<le> x" and "x < 2 powi (k + 1)"
  shows "ilog2 x = k"
proof -
  have pos: "0 < x"
    using assms(1) zero_less_power_int [of "2::real" k] by linarith
  have "(2::real) powi ilog2 x < 2 powi (k + 1)"
    using ilog2_lower [OF pos] assms(2) by linarith
  then have 1: "ilog2 x < k + 1"
    using power_int_increasing [of "k + 1" "ilog2 x" "2::real"] by force
  have "(2::real) powi k < 2 powi (ilog2 x + 1)"
    using ilog2_upper [OF pos] assms(1) by linarith
  then have 2: "k < ilog2 x + 1"
    using power_int_increasing [of "ilog2 x + 1" k "2::real"] by force
  show ?thesis using 1 2 by simp
qed

text \<open>Rounding to the nearest integer: integers are fixed, and the result lies on the same side of
  an integer as the argument.\<close>

lemma round_half_even_of_int [simp]: "round_half_even (of_int n) = n"
  by (simp add: round_half_even_def)

lemma round_half_even_le:
  assumes "s \<le> of_int j"
  shows "round_half_even s \<le> j"
proof (cases "s = of_int j")
  case True
  then show ?thesis by simp
next
  case False
  then have "s < of_int j" using assms by simp
  then have "\<lfloor>s\<rfloor> < j" by (simp add: floor_less_iff)
  then show ?thesis
    by (simp add: round_half_even_def Let_def)
qed

lemma round_half_even_gt:
  assumes "of_int j + 1 / 2 < s"
  shows "j < round_half_even s"
proof -
  have f: "j \<le> \<lfloor>s\<rfloor>" using assms by (simp add: le_floor_iff)
  show ?thesis
  proof (cases "j = \<lfloor>s\<rfloor>")
    case True
    then have "1 / 2 < s - of_int \<lfloor>s\<rfloor>" using assms by simp
    then show ?thesis
      using True by (simp add: round_half_even_def Let_def)
  next
    case False
    then have "j < \<lfloor>s\<rfloor>" using f by simp
    then show ?thesis
      by (simp add: round_half_even_def Let_def)
  qed
qed

lemma round_half_even_ge:
  assumes "of_int j \<le> s"
  shows "j \<le> round_half_even s"
proof -
  have f: "j \<le> \<lfloor>s\<rfloor>" using assms by (simp add: le_floor_iff)
  then show ?thesis
    by (simp add: round_half_even_def Let_def)
qed

text \<open>Rounding of a number whose binary exponent is known.\<close>

lemma round_nearest_unfold:
  assumes "2 powi k \<le> \<bar>x\<bar>" and "\<bar>x\<bar> < 2 powi (k + 1)"
  shows "round_nearest x =
           sgn x * of_int (round_half_even (\<bar>x\<bar> / 2 powi max (k - 52) (- 1074)))
             * 2 powi max (k - 52) (- 1074)"
proof -
  have "0 < \<bar>x\<bar>"
    using assms(1) zero_less_power_int [of "2::real" k] by linarith
  then have "x \<noteq> 0" by simp
  then show ?thesis
    by (simp add: round_nearest_def Let_def ilog2_eqI [OF assms])
qed


lemma power_int_less_imp_less:
  assumes "(2::real) powi a < 2 powi b"
  shows "a < b"
proof (rule ccontr)
  assume "\<not> a < b"
  then have "b \<le> a" by simp
  then have "(2::real) powi b \<le> 2 powi a"
    by (rule power_int_increasing) simp
  then show False using assms by simp
qed

text \<open>The quotient of a positive integer below \<open>2 ^ 53\<close> by a positive integer below
  \<open>2 ^ 1075\<close>, when it is not an integer, lies farther from the integer below it than half
  the spacing of the floats around it: rounding does not move it across an integer.\<close>

lemma true_div_bounds:
  fixes d m :: int
  assumes d: "0 < d" "d < 2 ^ 53" and m: "0 < m" "m < 2 ^ 1075"
  shows "real_of_int (\<lceil>real_of_int d / real_of_int m\<rceil> - 1)
           < round_nearest (real_of_int d / real_of_int m)"
    and "round_nearest (real_of_int d / real_of_int m)
           \<le> real_of_int \<lceil>real_of_int d / real_of_int m\<rceil>"
proof -
  define x where "x = real_of_int d / real_of_int m"
  define k where "k = ilog2 x"
  define e where "e = max (k - 52) (- 1074)"
  define n where "n = nat (- e)"
  define q where "q = \<lceil>x\<rceil> - 1"
  have mr: "0 < real_of_int m" "1 \<le> real_of_int m" using m(1) by simp_all
  have x: "0 < x" unfolding x_def using d(1) m(1) by simp
  have xm: "x * real_of_int m = real_of_int d"
    unfolding x_def using m(1) by simp
  have xd: "x \<le> real_of_int d"
  proof -
    have "x * 1 \<le> x * real_of_int m"
      using x mr(2) by (intro mult_left_mono) simp_all
    then show ?thesis using xm by simp
  qed
  have d53: "real_of_int d < 2 ^ 53"
    using of_int_less_iff [of d "2 ^ 53", where ?'a = real] d(2) by simp
  have lo: "2 powi k \<le> x" unfolding k_def using x by (rule ilog2_lower)
  have "(2::real) powi k < 2 powi 53"
    using lo xd d53 by simp
  then have k: "k < 53" by (rule power_int_less_imp_less)
  have e0: "e \<le> 0" unfolding e_def using k by simp
  have e: "e = - int n" unfolding n_def using e0 by simp
  have pe: "(2::real) powi e = 1 / 2 ^ n"
    unfolding e by (simp add: power_int_minus_divide)
  have rn: "round_nearest x = real_of_int (round_half_even (x * 2 ^ n)) / 2 ^ n"
    using x by (simp add: round_nearest_def Let_def k_def [symmetric] e_def [symmetric] pe)
  have half: "1 / (2 * 2 ^ n) < 1 / real_of_int m"
  proof (cases "k - 52 \<le> - 1074")
    case True
    then have "e = - 1074" unfolding e_def by simp
    then have "n = 1074" unfolding n_def by simp
    moreover have "real_of_int m < 2 ^ 1075"
      using of_int_less_iff [of m "2 ^ 1075", where ?'a = real] m(2) by simp
    ultimately show ?thesis
      using mr(1) by (simp add: field_simps)
  next
    case False
    then have "e = k - 52" unfolding e_def by simp
    then have "(2::real) powi e = 2 powi k / 2 powi 52"
      by (simp add: power_int_diff)
    then have "1 / (2 * 2 ^ n) = 2 powi k / (2::real) ^ 53"
      using pe by simp
    also have "\<dots> \<le> x / 2 ^ 53"
      using lo by (simp add: divide_right_mono)
    also have "\<dots> = real_of_int d / 2 ^ 53 / real_of_int m"
      unfolding x_def by simp
    also have "\<dots> < 1 / real_of_int m"
      using d53 mr(1) by (intro divide_strict_right_mono) simp_all
    finally show ?thesis .
  qed
  have qx: "real_of_int q < x" "x \<le> real_of_int q + 1"
    unfolding q_def by linarith+
  have frac: "1 / real_of_int m \<le> x - real_of_int q"
  proof -
    have "real_of_int q * real_of_int m < x * real_of_int m"
      using qx(1) mr(1) by simp
    then have "real_of_int (q * m) < real_of_int d"
      using xm by simp
    then have "q * m < d" by (simp only: of_int_less_iff)
    then have "1 \<le> d - q * m" by simp
    then have "real_of_int 1 \<le> real_of_int (d - q * m)"
      by (simp only: of_int_le_iff)
    then have "1 \<le> (x - real_of_int q) * real_of_int m"
      using xm by (simp add: algebra_simps)
    then show ?thesis
      using mr(1) by (simp add: field_simps)
  qed
  have up: "round_half_even (x * 2 ^ n) \<le> (q + 1) * 2 ^ n"
  proof (rule round_half_even_le)
    have "x * 2 ^ n \<le> (real_of_int q + 1) * 2 ^ n"
      using qx(2) by (intro mult_right_mono) simp_all
    then show "x * 2 ^ n \<le> real_of_int ((q + 1) * 2 ^ n)" by simp
  qed
  have low: "q * 2 ^ n < round_half_even (x * 2 ^ n)"
  proof (rule round_half_even_gt)
    have "1 / (2 * 2 ^ n) < x - real_of_int q"
      using half frac by linarith
    then have "1 / (2 * 2 ^ n) * 2 ^ n < (x - real_of_int q) * 2 ^ n"
      by (intro mult_strict_right_mono) simp_all
    then have "1 / 2 < x * 2 ^ n - real_of_int q * 2 ^ n"
      by (simp add: algebra_simps)
    then show "real_of_int (q * 2 ^ n) + 1 / 2 < x * 2 ^ n" by simp
  qed
  have "real_of_int (q * 2 ^ n) < real_of_int (round_half_even (x * 2 ^ n))"
    using low by (simp only: of_int_less_iff)
  then have "real_of_int q * 2 ^ n < real_of_int (round_half_even (x * 2 ^ n))"
    by simp
  then have "real_of_int q < round_nearest x"
    unfolding rn by (simp add: pos_less_divide_eq)
  then show "real_of_int (\<lceil>real_of_int d / real_of_int m\<rceil> - 1)
           < round_nearest (real_of_int d / real_of_int m)"
    unfolding q_def x_def .
  have "real_of_int (round_half_even (x * 2 ^ n)) \<le> real_of_int ((q + 1) * 2 ^ n)"
    using up by (simp only: of_int_le_iff)
  then have "real_of_int (round_half_even (x * 2 ^ n)) \<le> real_of_int (q + 1) * 2 ^ n"
    by simp
  then have "round_nearest x \<le> real_of_int (q + 1)"
    unfolding rn by (simp add: pos_divide_le_eq)
  then show "round_nearest (real_of_int d / real_of_int m)
           \<le> real_of_int \<lceil>real_of_int d / real_of_int m\<rceil>"
    unfolding q_def x_def by simp
qed

lemma true_div_ceiling:
  fixes d m :: int
  assumes d: "0 < d" "d < 2 ^ 53" and m: "0 < m" "m < 2 ^ 1075"
  shows "float_of_real (real_of_int d / real_of_int m)
           = Finite (round_nearest (real_of_int d / real_of_int m))"
    and "\<lceil>round_nearest (real_of_int d / real_of_int m)\<rceil>
           = \<lceil>real_of_int d / real_of_int m\<rceil>"
proof -
  note b = true_div_bounds [OF assms]
  let ?x = "real_of_int d / real_of_int m"
  have x: "0 < ?x" using d(1) m(1) by simp
  then have c: "0 < \<lceil>?x\<rceil>" by (simp add: less_ceiling_iff)
  show "\<lceil>round_nearest ?x\<rceil> = \<lceil>?x\<rceil>"
    using b by (intro ceiling_unique) simp_all
  have "?x \<le> real_of_int d"
    using d(1) m(1) by (simp add: pos_divide_le_eq mult_le_cancel_left1)
  then have "\<lceil>?x\<rceil> \<le> d" by (simp add: ceiling_le_iff)
  then have "\<lceil>?x\<rceil> < 2 ^ 53" using d(2) by (rule le_less_trans)
  then have "real_of_int \<lceil>?x\<rceil> < 2 ^ 53"
    using of_int_less_iff [of "\<lceil>?x\<rceil>" "2 ^ 53", where ?'a = real] by simp
  then have u: "round_nearest ?x < 2 ^ 53" using b(2) by linarith
  have "(2::real) ^ 53 \<le> 2 ^ 1024" by (intro power_increasing) simp_all
  then have u': "round_nearest ?x < 2 ^ 1024" using u by linarith
  have "0 \<le> real_of_int (\<lceil>?x\<rceil> - 1)" using c by simp
  then have l: "0 < round_nearest ?x" using b(1) by linarith
  have "- ((2::real) ^ 1024) < 0" by simp
  then show "float_of_real ?x = Finite (round_nearest ?x)"
    using u' l by (simp add: float_of_real_def Let_def)
qed


text \<open>A number below \<open>2 powi (- 1075)\<close>, half the smallest positive float, rounds to zero.\<close>

lemma round_half_even_small:
  assumes "0 \<le> s" and "s < 1 / 2"
  shows "round_half_even s = 0"
proof -
  have "\<lfloor>s\<rfloor> = 0" using assms by (simp add: floor_eq_iff)
  then show ?thesis using assms by (simp add: round_half_even_def)
qed

lemma round_nearest_underflow:
  assumes "\<bar>x\<bar> < 1 / 2 ^ 1075"
  shows "round_nearest x = 0"
proof (cases "x = 0")
  case True
  then show ?thesis by (simp add: round_nearest_def)
next
  case False
  define k where "k = ilog2 \<bar>x\<bar>"
  have pos: "0 < \<bar>x\<bar>" using False by simp
  have "(2::real) powi (- 1075) = 1 / 2 ^ 1075"
    by (simp add: power_int_minus_divide)
  then have "(2::real) powi k < 2 powi (- 1075)"
    using ilog2_lower [OF pos] assms unfolding k_def by linarith
  then have "k < - 1075" by (rule power_int_less_imp_less)
  then have e: "max (k - 52) (- 1074) = - 1074" by simp
  have p: "(2::real) powi (- 1074) = 1 / 2 ^ 1074"
    by (simp add: power_int_minus_divide)
  have "\<bar>x\<bar> * 2 ^ 1074 < 1 / 2 ^ 1075 * 2 ^ 1074"
    using assms by (intro mult_strict_right_mono) simp_all
  then have "\<bar>x\<bar> * 2 ^ 1074 < 1 / 2" by simp
  then have "round_half_even (\<bar>x\<bar> * 2 ^ 1074) = 0"
    by (intro round_half_even_small) simp_all
  then show ?thesis
    using False by (simp add: round_nearest_def Let_def k_def [symmetric] e p)
qed

text \<open>A number \<open>i * 2 powi t\<close> that needs no more than 53 bits is a float: rounding returns it.\<close>

lemma round_nearest_exact_strict:
  assumes "\<bar>i\<bar> < 2 ^ 53" and "- 1074 \<le> t"
  shows "round_nearest (real_of_int i * 2 powi t) = real_of_int i * 2 powi t"
proof (cases "i = 0")
  case True
  then show ?thesis by (simp add: round_nearest_def)
next
  case False
  define z where "z = real_of_int i * 2 powi t"
  define a where "a = real_of_int \<bar>i\<bar> * 2 powi t"
  define k where "k = ilog2 a"
  define e where "e = max (k - 52) (- 1074)"
  define n where "n = nat (t - e)"
  have a: "0 < a" unfolding a_def using False by simp
  have az: "\<bar>z\<bar> = a" unfolding a_def z_def by (simp add: abs_mult)
  have z: "z \<noteq> 0" using a az by auto
  have "real_of_int \<bar>i\<bar> < 2 ^ 53"
    using of_int_less_iff [of "\<bar>i\<bar>" "2 ^ 53", where ?'a = real] assms(1) by simp
  then have "a < 2 ^ 53 * 2 powi t"
    unfolding a_def by (intro mult_strict_right_mono) simp_all
  also have "\<dots> = 2 powi (53 + t)"
    by (simp add: power_int_add)
  finally have "(2::real) powi k < 2 powi (53 + t)"
    using ilog2_lower [OF a] unfolding k_def by linarith
  then have "k < 53 + t" by (rule power_int_less_imp_less)
  then have et: "e \<le> t" unfolding e_def using assms(2) by simp
  then have "t = e + int n" unfolding n_def by simp
  then have "(2::real) powi t = 2 powi e * 2 powi int n"
    by (simp add: power_int_add)
  then have pt: "(2::real) powi t = 2 powi e * 2 ^ n" by simp
  have "a / 2 powi e = real_of_int (\<bar>i\<bar> * 2 ^ n)"
    unfolding a_def pt by simp
  then have "round_half_even (a / 2 powi e) = \<bar>i\<bar> * 2 ^ n"
    by (simp only: round_half_even_of_int)
  then have "round_nearest z = sgn z * real_of_int (\<bar>i\<bar> * 2 ^ n) * 2 powi e"
    using z by (simp add: round_nearest_def Let_def az k_def [symmetric] e_def [symmetric])
  also have "\<dots> = sgn z * a"
    unfolding a_def pt by simp
  also have "\<dots> = z"
    unfolding az [symmetric] by (rule mult_sgn_abs)
  finally show ?thesis unfolding z_def .
qed

lemma round_nearest_exact:
  assumes "\<bar>i\<bar> \<le> 2 ^ 53" and "- 1074 \<le> t"
  shows "round_nearest (real_of_int i * 2 powi t) = real_of_int i * 2 powi t"
proof (cases "\<bar>i\<bar> = 2 ^ 53")
  case False
  then have "\<bar>i\<bar> < 2 ^ 53" using assms(1) by simp
  then show ?thesis using assms(2) by (rule round_nearest_exact_strict)
next
  case True
  then obtain j where j: "i = 2 * j" "\<bar>j\<bar> = 2 ^ 52"
    by (cases "0 \<le> i") (auto intro: that [of "2 ^ 52"] that [of "- (2 ^ 52)"])
  have "real_of_int i * 2 powi t = real_of_int j * 2 powi (t + 1)"
    unfolding j(1) by (simp add: power_int_add)
  moreover have "round_nearest (real_of_int j * 2 powi (t + 1)) = real_of_int j * 2 powi (t + 1)"
    using j(2) assms(2) by (intro round_nearest_exact_strict) simp_all
  ultimately show ?thesis by simp
qed

text \<open>Rounding to the nearest integer moves a number by at most one half.\<close>

lemma round_half_even_error: "\<bar>real_of_int (round_half_even s) - s\<bar> \<le> 1 / 2"
proof -
  have "real_of_int \<lfloor>s\<rfloor> \<le> s" "s < real_of_int \<lfloor>s\<rfloor> + 1" by linarith+
  then show ?thesis
    by (auto simp add: round_half_even_def Let_def abs_le_iff)
qed

lemma round_half_even_lt:
  assumes "s < real_of_int j + 1 / 2"
  shows "round_half_even s \<le> j"
proof -
  have f: "\<lfloor>s\<rfloor> \<le> j" using assms by (simp add: floor_le_iff)
  show ?thesis
  proof (cases "\<lfloor>s\<rfloor> = j")
    case True
    then have "s - real_of_int \<lfloor>s\<rfloor> < 1 / 2" using assms by simp
    then show ?thesis using True by (simp add: round_half_even_def Let_def)
  next
    case False
    then have "\<lfloor>s\<rfloor> < j" using f by simp
    then show ?thesis by (simp add: round_half_even_def Let_def)
  qed
qed

lemma round_half_even_odd:
  assumes "real_of_int j + 1 / 2 \<le> s" and "odd j"
  shows "j < round_half_even s"
proof -
  have f: "j \<le> \<lfloor>s\<rfloor>" using assms(1) by (simp add: le_floor_iff)
  show ?thesis
  proof (cases "j = \<lfloor>s\<rfloor>")
    case True
    then have "1 / 2 \<le> s - real_of_int \<lfloor>s\<rfloor>" using assms(1) by simp
    then show ?thesis
      using True assms(2) by (simp add: round_half_even_def Let_def)
  next
    case False
    then have "j < \<lfloor>s\<rfloor>" using f by simp
    then show ?thesis by (simp add: round_half_even_def Let_def)
  qed
qed

text \<open>Between 0 and 1 rounding moves a number by at most \<open>1 / 2 ^ 54\<close>, and a number that
  close to 1 rounds to 1.\<close>

lemma round_nearest_unit_error:
  assumes "0 \<le> z" and "z \<le> 1"
  shows "\<bar>round_nearest z - z\<bar> \<le> 1 / 2 ^ 54"
proof (cases "z = 0 \<or> z = 1")
  case True
  then show ?thesis
    using round_nearest_exact [of 1 0] by (auto simp add: round_nearest_def)
next
  case False
  then have z: "0 < z" "z < 1" using assms by simp_all
  define k where "k = ilog2 z"
  define e where "e = max (k - 52) (- 1074)"
  have "(2::real) powi k < 2 powi 0"
    using ilog2_lower [OF z(1)] z(2) unfolding k_def by simp
  then have "k < 0" by (rule power_int_less_imp_less)
  then have e: "e \<le> - 53" unfolding e_def by simp
  have pe: "(2::real) powi e \<le> 2 powi (- 53)"
    using e by (rule power_int_increasing) simp
  have p53: "(2::real) powi (- 53) = 1 / 2 ^ 53"
    by (simp add: power_int_minus_divide)
  have rn: "round_nearest z = real_of_int (round_half_even (z / 2 powi e)) * 2 powi e"
    using z(1) by (simp add: round_nearest_def Let_def k_def [symmetric] e_def [symmetric])
  have "round_nearest z - z
          = (real_of_int (round_half_even (z / 2 powi e)) - z / 2 powi e) * 2 powi e"
    unfolding rn by (simp add: algebra_simps)
  then have "\<bar>round_nearest z - z\<bar>
          = \<bar>real_of_int (round_half_even (z / 2 powi e)) - z / 2 powi e\<bar> * 2 powi e"
    by (simp add: abs_mult)
  also have "\<dots> \<le> 1 / 2 * 2 powi e"
    using round_half_even_error [of "z / 2 powi e"] by (intro mult_right_mono) simp_all
  also have "\<dots> \<le> 1 / 2 * (1 / 2 ^ 53)"
    using pe unfolding p53 by simp
  finally show ?thesis by simp
qed

lemma round_nearest_near_one:
  assumes "\<bar>t - 1\<bar> \<le> 1 / 2 ^ 54"
  shows "round_nearest t = 1"
proof (cases "1 \<le> t")
  case True
  have t: "t \<le> 1 + 1 / 2 ^ 54" using assms by linarith
  have a: "\<bar>t\<bar> = t" "sgn t = 1" using True by simp_all
  have lo: "2 powi 0 \<le> \<bar>t\<bar>" using True by simp
  have "(1::real) / 2 ^ 54 < 1" by simp
  then have t2: "t < 2" using t by linarith
  have hi: "\<bar>t\<bar> < 2 powi (0 + 1)" using t2 by (simp add: a)
  have p: "(2::real) powi (- 52) = 1 / 2 ^ 52"
    by (simp add: power_int_minus_divide)
  have s1: "real_of_int (2 ^ 52) \<le> t * 2 ^ 52" using True by simp
  have "t * 2 ^ 52 \<le> (1 + 1 / 2 ^ 54) * 2 ^ 52"
    using t by (intro mult_right_mono) simp_all
  then have s2: "t * 2 ^ 52 < real_of_int (2 ^ 52) + 1 / 2" by simp
  have "round_half_even (t * 2 ^ 52) = 2 ^ 52"
    using round_half_even_ge [OF s1] round_half_even_lt [OF s2] by simp
  then show ?thesis
    unfolding round_nearest_unfold [OF lo hi] by (simp add: a p)
next
  case False
  have t: "1 - 1 / 2 ^ 54 \<le> t" using assms by linarith
  moreover have "(1::real) / 2 ^ 54 \<le> 1 / 2" by simp
  ultimately have t0: "1 / 2 \<le> t" by linarith
  have a: "\<bar>t\<bar> = t" "sgn t = 1" using t0 by simp_all
  have lo: "2 powi (- 1) \<le> \<bar>t\<bar>" using t0 by (simp add: a power_int_minus_divide)
  have hi: "\<bar>t\<bar> < 2 powi (- 1 + 1)" using False by (simp add: a)
  have p: "(2::real) powi (- 53) = 1 / 2 ^ 53"
    by (simp add: power_int_minus_divide)
  have s1: "t * 2 ^ 53 \<le> real_of_int (2 ^ 53)" using False by simp
  have "(1 - 1 / 2 ^ 54) * 2 ^ 53 \<le> t * 2 ^ 53"
    using t by (intro mult_right_mono) simp_all
  then have s2: "real_of_int (2 ^ 53 - 1) + 1 / 2 \<le> t * 2 ^ 53" by simp
  have "odd ((2::int) ^ 53 - 1)" by simp
  then have "2 ^ 53 - 1 < round_half_even (t * 2 ^ 53)"
    using s2 by (rule round_half_even_odd [rotated])
  then have "round_half_even (t * 2 ^ 53) = 2 ^ 53"
    using round_half_even_le [OF s1] by simp
  then show ?thesis
    unfolding round_nearest_unfold [OF lo hi] by (simp add: a p)
qed

lemma float_of_real_small:
  assumes "\<bar>round_nearest x\<bar> < 2 ^ 1024"
  shows "float_of_real x = Finite (round_nearest x)"
  using assms by (auto simp add: float_of_real_def Let_def)

text \<open>For a float \<open>w\<close> between one half and one, \<open>1 - w\<close> is a float.\<close>

lemma sterbenz_unit:
  assumes "is_double w" and "1 / 2 \<le> w" and "w \<le> 1"
  shows "round_nearest (1 - w) = 1 - w"
proof (cases "w = 1")
  case True
  then show ?thesis by (simp add: round_nearest_def)
next
  case False
  then have w1: "w < 1" using assms(3) by simp
  have a: "\<bar>w\<bar> = w" "sgn w = 1" using assms(2) by simp_all
  have lo: "2 powi (- 1) \<le> \<bar>w\<bar>" using assms(2) by (simp add: a power_int_minus_divide)
  have hi: "\<bar>w\<bar> < 2 powi (- 1 + 1)" using w1 by (simp add: a)
  have p: "(2::real) powi (- 53) = 1 / 2 ^ 53"
    by (simp add: power_int_minus_divide)
  define r where "r = round_half_even (w * 2 ^ 53)"
  have "round_nearest w = w"
    using assms(1) by (auto simp add: is_double_def float_of_real_def Let_def split: if_splits)
  then have w: "w = real_of_int r / 2 ^ 53"
    unfolding round_nearest_unfold [OF lo hi] r_def by (simp add: a p)
  have "0 \<le> real_of_int r" "real_of_int r \<le> 2 ^ 53"
    using assms(2) w1 unfolding w by (simp_all add: field_simps)
  then have r: "0 \<le> r" "r \<le> 2 ^ 53"
    using of_int_le_iff [of r "2 ^ 53", where ?'a = real] by simp_all
  have eq: "1 - w = real_of_int (2 ^ 53 - r) * 2 powi (- 53)"
    unfolding w p by (simp add: field_simps)
  show ?thesis
    unfolding eq using r by (intro round_nearest_exact) simp_all
qed

text \<open>The two steps of line 195, true division and \<^verbatim>\<open>math.ceil\<close>.\<close>

lemma true_div_zero: "and_then (int_true_div a 0) math_ceil = Inl ZeroDivisionError"
  by (simp add: int_true_div_def and_then_def)

lemma true_div_raises:
  assumes "and_then (int_true_div a b) math_ceil = Inl e"
  shows "e = ZeroDivisionError \<or> e = OverflowError"
  using assms
  by (auto simp add: int_true_div_def and_then_def split: if_splits pyfloat.splits)

lemma true_div_steps:
  fixes d m :: int
  assumes "0 < d" and "d < 2 ^ 53" and "0 < m" and "m < 2 ^ 1075"
  shows "and_then (int_true_div d m) math_ceil = Inr \<lceil>real_of_int d / real_of_int m\<rceil>"
  using assms(3) true_div_ceiling [OF assms] by (simp add: int_true_div_def and_then_def)

lemma true_div_underflow:
  fixes a b :: int
  assumes "0 < a" and "a * 2 ^ 1075 < b"
  shows "and_then (int_true_div a b) math_ceil = Inr 0"
proof -
  have "0 < a * 2 ^ 1075" using assms(1) by simp
  then have b: "0 < b" using assms(2) by linarith
  have "real_of_int (a * 2 ^ 1075) < real_of_int b"
    using assms(2) by (simp only: of_int_less_iff)
  then have "real_of_int a * 2 ^ 1075 < real_of_int b" by simp
  then have "real_of_int a / real_of_int b < 1 / 2 ^ 1075"
    using b by (simp add: field_simps)
  moreover have "0 \<le> real_of_int a / real_of_int b"
    using assms(1) b by simp
  ultimately have "\<bar>real_of_int a / real_of_int b\<bar> < 1 / 2 ^ 1075"
    by linarith
  then have "round_nearest (real_of_int a / real_of_int b) = 0"
    by (rule round_nearest_underflow)
  then show ?thesis
    using b by (simp add: int_true_div_def and_then_def float_of_real_def)
qed

lemma true_div_above_2_53:
  "and_then (int_true_div 9007199254740993 1) math_ceil = Inr 9007199254740992"
proof -
  have "round_nearest 9007199254740993 = 9007199254740992"
    by (subst round_nearest_unfold [of 53]) (simp_all add: round_half_even_def)
  then show ?thesis
    by (simp add: int_true_div_def and_then_def float_of_real_def)
qed

lemma returned_steps_simps:
  "returned_steps (c, Inr p) = Inr (steps_per_epoch p)"
  "returned_steps (c, Inl e) = Inl e"
  by (simp_all add: returned_steps_def and_then_def)

section \<open>Properties of create\_pipeline\<close>

lemma create_pipeline_constructs:
  "fst (create_pipeline env gl n b pre tr g) =
     [Module (BertJointIntentSlotDataLayer (data_layer_of gl n b pre tr))]"
  by (simp add: create_pipeline_def Let_def split: sum.splits)

lemma create_pipeline_raises:
  "snd (create_pipeline env gl n b pre tr g) = Inl e \<Longrightarrow>
     e = ZeroDivisionError \<or> e = OverflowError"
  by (auto simp add: create_pipeline_def Let_def split: sum.splits dest: true_div_raises)

text \<open>
  A call reads of the module-level variables only the data layer they determine, the
  encoder, the classifier and the three losses.
\<close>

lemma create_pipeline_cong:
  assumes "data_layer_of gl' n b pre tr = data_layer_of gl n b pre tr"
    and "gl_model gl' = gl_model gl" and "gl_classifier gl' = gl_classifier gl"
    and "gl_intent_loss_fn gl' = gl_intent_loss_fn gl"
    and "gl_slot_loss_fn gl' = gl_slot_loss_fn gl"
    and "gl_total_loss_fn gl' = gl_total_loss_fn gl"
  shows "create_pipeline env gl' n b pre tr g = create_pipeline env gl n b pre tr g"
  by (simp only: create_pipeline_def assms)

lemma ceiling_unit_fraction:
  fixes d m :: int
  assumes "0 < d" "d \<le> m"
  shows "\<lceil>real_of_int d / real_of_int m\<rceil> = 1"
proof -
  have pos: "0 < real_of_int m" using assms by simp
  have le: "real_of_int d \<le> real_of_int m" using assms(2) by simp
  have "0 < real_of_int d / real_of_int m"
    using assms(1) pos by simp
  moreover have "real_of_int d / real_of_int m \<le> 1"
    using pos le by (simp only: divide_le_eq_1_pos)
  ultimately show ?thesis
    by (simp add: ceiling_eq_iff)
qed

lemma ceiling_reduced_batch:
  fixes d b g :: int
  assumes "0 < d" "d < b" "0 < g"
  shows "\<lceil>real_of_int d / real_of_int (d * g)\<rceil> = 1"
    and "\<lceil>real_of_int d / real_of_int (b * g)\<rceil> = 1"
proof -
  have "d \<le> d * g" using assms by (simp add: mult_le_cancel_left1)
  then show "\<lceil>real_of_int d / real_of_int (d * g)\<rceil> = 1"
    using assms(1) by (rule ceiling_unit_fraction [rotated])
  have "b \<le> b * g" using assms by (simp add: mult_le_cancel_left1)
  then have "d \<le> b * g" using assms by linarith
  then show "\<lceil>real_of_int d / real_of_int (b * g)\<rceil> = 1"
    using assms(1) by (rule ceiling_unit_fraction [rotated])
qed

text \<open>
  A call on a data layer of at least one and fewer than \<open>2 ^ 53\<close> examples, with a positive
  batch size and a positive number of GPUs whose product is below \<open>2 ^ 1075\<close>, returns.
\<close>

lemma create_pipeline_steps:
  assumes "0 < data_layer_len env (data_layer_of gl n b pre tr)"
    and "data_layer_len env (data_layer_of gl n b pre tr) < 2 ^ 53"
    and "0 < b" and "0 < g" and "b * g < 2 ^ 1075"
  shows "\<exists>p. create_pipeline env gl n b pre tr g
                = ([Module (BertJointIntentSlotDataLayer (data_layer_of gl n b pre tr))], Inr p)
              \<and> steps_per_epoch p =
                  \<lceil>real (data_layer_len env (data_layer_of gl n b pre tr)) / real_of_int (b * g)\<rceil>"
proof -
  define d where "d = int (data_layer_len env (data_layer_of gl n b pre tr))"
  define m where "m = (if d < b then d else b) * g"
  have d: "0 < d" "d < 2 ^ 53"
    using assms(1,2) by (simp_all add: d_def)
  have m: "0 < m" "m < 2 ^ 1075"
  proof -
    show "0 < m" unfolding m_def using d(1) assms(3,4) by simp
    have "m \<le> b * g"
      unfolding m_def using assms(4) by (simp add: mult_right_mono)
    then show "m < 2 ^ 1075" using assms(5) by (rule le_less_trans)
  qed
  have c: "\<lceil>real_of_int d / real_of_int m\<rceil> = \<lceil>real_of_int d / real_of_int (b * g)\<rceil>"
  proof (cases "d < b")
    case True
    then show ?thesis
      unfolding m_def using ceiling_reduced_batch [OF d(1) True assms(4)] by simp
  next
    case False
    then show ?thesis unfolding m_def by simp
  qed
  have "and_then (int_true_div d m) math_ceil = Inr \<lceil>real_of_int d / real_of_int (b * g)\<rceil>"
    using true_div_steps [OF d m] c by simp
  then show ?thesis
    unfolding d_def m_def by (simp add: create_pipeline_def Let_def)
qed

text \<open>
  Claim C1, as amended.  When the data layer holds at least one and fewer than \<open>2 ^ 53\<close>
  examples, and the batch size and the number of GPUs passed to \<^verbatim>\<open>create_pipeline\<close>
  are positive with a product below \<open>2 ^ 1075\<close>, the call returns, and its
  \<^verbatim>\<open>steps_per_epoch\<close> is the ceiling of the data size over the batch size given to the
  call times the number of GPUs: the rounding of the float quotient does not change the
  ceiling, and where the batch size is reduced to the data size, both quotients have
  ceiling one.
\<close>

theorem create_pipeline_steps_per_epoch:
  assumes "0 < data_layer_len env (data_layer_of gl n b pre tr)"
    and "data_layer_len env (data_layer_of gl n b pre tr) < 2 ^ 53"
    and "0 < b" and "0 < g" and "b * g < 2 ^ 1075"
  shows "\<exists>p. snd (create_pipeline env gl n b pre tr g) = Inr p \<and>
           steps_per_epoch p =
             \<lceil>real (data_layer_len env (data_layer_of gl n b pre tr)) / real_of_int (b * g)\<rceil>"
proof -
  obtain p where
    "create_pipeline env gl n b pre tr g
       = ([Module (BertJointIntentSlotDataLayer (data_layer_of gl n b pre tr))], Inr p)"
    and "steps_per_epoch p =
       \<lceil>real (data_layer_len env (data_layer_of gl n b pre tr)) / real_of_int (b * g)\<rceil>"
    using create_pipeline_steps [OF assms] by blast
  then show ?thesis by simp
qed

text \<open>The definitions that evaluate a concrete run.\<close>

lemmas run_defs =
  script_def create_pipeline_def data_layer_of_def script_globals_def model_def nf_def
  get_tokenizer_def classifier_def intent_loss_fn_def slot_loss_fn_def total_loss_fn_def
  train_callback_def eval_callback_def ckpt_callback_def lr_policy_fn_def nf_train_def
  small_world_def no_data_world_def default_args_def atis_desc_def Let_def

text \<open>A run of 300 examples in batches of 128 on two GPUs takes two steps.\<close>

theorem create_pipeline_steps_per_epoch_witness:
  "0 < data_layer_len (small_world 300)
         (data_layer_of (script_globals (small_world 300) default_args
            (HuggingfaceModel None ''bert-base-uncased'')) (- 1) 128 ''train'' True)
   \<and> data_layer_len (small_world 300)
         (data_layer_of (script_globals (small_world 300) default_args
            (HuggingfaceModel None ''bert-base-uncased'')) (- 1) 128 ''train'' True) < 2 ^ 53
   \<and> (0::int) < 128 \<and> (0::int) < 2 \<and> (128::int) * 2 < 2 ^ 1075
   \<and> (\<exists>p. snd (create_pipeline (small_world 300)
              (script_globals (small_world 300) default_args
                 (HuggingfaceModel None ''bert-base-uncased'')) (- 1) 128 ''train'' True 2)
            = Inr p \<and> steps_per_epoch p = 2)"
  using create_pipeline_steps_per_epoch [of "small_world 300"
      "script_globals (small_world 300) default_args
         (HuggingfaceModel None ''bert-base-uncased'')" "- 1" 128 "''train''" True 2]
  by (simp add: small_world_def)

text \<open>
  Claim C1 as stated fails.  With \<^verbatim>\<open>--num_gpus 0\<close>, or with an empty data layer (the batch
  size is then reduced to zero), the division of line 195 raises
  \<^verbatim>\<open>ZeroDivisionError\<close>, although the data directory exists.  With 4978 examples,
  batches of 128 and \<^verbatim>\<open>--num_gpus\<close> \<open>10 ^ 400\<close> the quotient is too small for a float and
  \<^verbatim>\<open>steps_per_epoch\<close> is 0, not 1; with \<open>2 ^ 53 + 1\<close> examples in batches of one it is
  \<open>2 ^ 53\<close>.
\<close>

theorem create_pipeline_zero_division:
  "snd (create_pipeline (small_world 100)
          (script_globals (small_world 100) default_args
             (HuggingfaceModel None ''bert-base-uncased'')) (- 1) 128 ''train'' True 0)
     = Inl ZeroDivisionError
   \<and> snd (script (small_world 100) (default_args\<lparr>num_gpus := 0\<rparr>)) = Some ZeroDivisionError
   \<and> snd (script (small_world 0) default_args) = Some ZeroDivisionError
   \<and> returned_steps (create_pipeline (small_world 4978)
          (script_globals (small_world 4978) default_args
             (HuggingfaceModel None ''bert-base-uncased'')) (- 1) 128 ''train'' True (10 ^ 400))
     = Inr 0
   \<and> returned_steps (create_pipeline (small_world 9007199254740993)
          (script_globals (small_world 9007199254740993) default_args
             (HuggingfaceModel None ''bert-base-uncased'')) (- 1) 1 ''train'' True 1)
     = Inr 9007199254740992"
proof -
  have 1: "snd (create_pipeline (small_world 100)
          (script_globals (small_world 100) default_args
             (HuggingfaceModel None ''bert-base-uncased'')) (- 1) 128 ''train'' True 0)
     = Inl ZeroDivisionError"
    by (simp add: create_pipeline_def Let_def small_world_def true_div_zero)
  have 2: "snd (script (small_world 100) (default_args\<lparr>num_gpus := 0\<rparr>))
             = Some ZeroDivisionError"
    by (simp add: run_defs true_div_zero)
  have 3: "snd (script (small_world 0) default_args) = Some ZeroDivisionError"
    by (simp add: run_defs true_div_zero)
  have 4: "returned_steps (create_pipeline (small_world 4978)
          (script_globals (small_world 4978) default_args
             (HuggingfaceModel None ''bert-base-uncased'')) (- 1) 128 ''train'' True (10 ^ 400))
     = Inr 0"
    by (simp add: create_pipeline_def Let_def small_world_def true_div_underflow
        returned_steps_simps)
  have 5: "returned_steps (create_pipeline (small_world 9007199254740993)
          (script_globals (small_world 9007199254740993) default_args
             (HuggingfaceModel None ''bert-base-uncased'')) (- 1) 1 ''train'' True 1)
     = Inr 9007199254740992"
    by (simp add: create_pipeline_def Let_def small_world_def true_div_above_2_53
        returned_steps_simps)
  show ?thesis
    using 1 2 3 4 5 by (intro conjI)
qed

section \<open>Properties of the script\<close>

lemma truthy_missing: "truthy x = (\<not> missing x)"
  by (cases x) (simp_all add: missing_def)

lemma encoders_append: "encoders (xs @ ys) = encoders xs @ encoders ys"
  by (induction xs rule: encoders.induct) simp_all

lemma script_error_cases:
  assumes "path_exists env (data_dir args)"
  shows "snd (script env args) =
           (case model args of Inl e \<Rightarrow> Some e
            | Inr enc \<Rightarrow> snd (script env args))"
  using assms by (simp add: script_def split: sum.splits)

lemma create_pipeline_Inl:
  "create_pipeline env gl n b pre tr g = (c, Inl e) \<Longrightarrow>
     e = ZeroDivisionError \<or> e = OverflowError"
  using create_pipeline_raises [of env gl n b pre tr g e] by simp

lemma create_pipeline_fst:
  "create_pipeline env gl n b pre tr g = (c, r) \<Longrightarrow>
     c = [Module (BertJointIntentSlotDataLayer (data_layer_of gl n b pre tr))]"
  using create_pipeline_constructs [of env gl n b pre tr g] by simp

lemma script_after_model:
  assumes "path_exists env (data_dir args)" and "model args = Inr enc"
  shows "snd (script env args) = None \<or> snd (script env args) = Some ZeroDivisionError
       \<or> snd (script env args) = Some OverflowError"
  using assms
  by (auto simp add: script_def Let_def split: sum.splits prod.splits
      dest: create_pipeline_Inl)

lemma script_encoders:
  assumes "path_exists env (data_dir args)" and "model args = Inr enc"
  shows "encoders (fst (script env args)) = [enc]"
  using assms
  by (auto simp add: script_def Let_def encoders_append script_globals_def classifier_def
      intent_loss_fn_def slot_loss_fn_def total_loss_fn_def
      split: sum.splits prod.splits dest!: create_pipeline_fst)

text \<open>
  Claim C5.  When the path of \<^verbatim>\<open>--data_dir\<close> does not exist the script raises
  \<^verbatim>\<open>ValueError\<close> and has constructed nothing; when it exists the script never stops with
  a \<^verbatim>\<open>ValueError\<close>, and the factory is the first object it constructs.
\<close>

theorem missing_data_dir_raises_first:
  "(\<not> path_exists env (data_dir args) \<longrightarrow>
      script env args = ([], Some (ValueError (''Data not found at '' @ data_dir args))))
   \<and> (path_exists env (data_dir args) \<longrightarrow>
        snd (script env args) \<noteq> Some (ValueError msg) \<and>
        (\<exists>rest. fst (script env args) = Factory (nf args) # rest))"
proof (intro conjI impI)
  assume "\<not> path_exists env (data_dir args)"
  then show "script env args = ([], Some (ValueError (''Data not found at '' @ data_dir args)))"
    by (simp add: script_def)
next
  assume p: "path_exists env (data_dir args)"
  show "snd (script env args) \<noteq> Some (ValueError msg)"
  proof (cases "model args")
    case (Inl e)
    then have "e = FileNotFoundError megatron_msg"
      by (simp add: model_def split: if_splits)
    then show ?thesis using Inl p by (simp add: script_def)
  next
    case (Inr enc)
    then show ?thesis using script_after_model [OF p Inr] by auto
  qed
next
  assume p: "path_exists env (data_dir args)"
  then show "\<exists>rest. fst (script env args) = Factory (nf args) # rest"
    by (auto simp add: script_def Let_def split: sum.splits prod.splits)
qed

text \<open>The defaults, in a world without the data directory and in one with it.\<close>

theorem missing_data_dir_raises_first_witness:
  "\<not> path_exists no_data_world (data_dir default_args)
   \<and> script no_data_world default_args = ([], Some (ValueError ''Data not found at data/atis''))
   \<and> path_exists (small_world 100) (data_dir default_args)
   \<and> snd (script (small_world 100) default_args) \<noteq> Some (ValueError ''Data not found at data/atis'')
   \<and> (\<exists>rest. fst (script (small_world 100) default_args) = Factory (nf default_args) # rest)"
  using missing_data_dir_raises_first [of no_data_world default_args]
    missing_data_dir_raises_first [of "small_world 100" default_args "''Data not found at data/atis''"]
  by (simp add: no_data_world_def small_world_def default_args_def)

text \<open>
  Claim C6.  With \<^verbatim>\<open>--pretrained_model_name megatron\<close>, lines 122 to 129 raise
  \<^verbatim>\<open>FileNotFoundError\<close> exactly when one of \<^verbatim>\<open>--bert_config\<close>,
  \<^verbatim>\<open>--bert_checkpoint\<close> and \<^verbatim>\<open>--vocab_file\<close> is missing, and so does every run that
  reaches them (the data directory exists); with all three given the encoder is a
  \<^verbatim>\<open>MegatronBERT\<close>, and it is the only encoder the run constructs.
\<close>

theorem megatron_requires_files:
  assumes "pretrained_model_name args = ''megatron''"
  shows "((model args = Inl (FileNotFoundError megatron_msg)) =
            (missing (bert_config args) \<or> missing (bert_checkpoint args) \<or>
             missing (vocab_file args)))
       \<and> (path_exists env (data_dir args) \<longrightarrow>
            (snd (script env args) = Some (FileNotFoundError megatron_msg)) =
              (missing (bert_config args) \<or> missing (bert_checkpoint args) \<or>
               missing (vocab_file args)))
       \<and> (\<not> missing (bert_config args) \<and> \<not> missing (bert_checkpoint args) \<and>
          \<not> missing (vocab_file args) \<longrightarrow>
            model args = Inr (MegatronBERT (bert_config args) (vocab_file args)) \<and>
            (path_exists env (data_dir args) \<longrightarrow>
               encoders (fst (script env args)) =
                 [MegatronBERT (bert_config args) (vocab_file args)]))"
proof -
  have m: "(model args = Inl (FileNotFoundError megatron_msg)) =
           (missing (bert_config args) \<or> missing (bert_checkpoint args) \<or>
            missing (vocab_file args))"
    using assms by (auto simp add: model_def truthy_missing)
  have ok: "\<not> missing (bert_config args) \<and> \<not> missing (bert_checkpoint args) \<and>
         \<not> missing (vocab_file args) \<longrightarrow>
           model args = Inr (MegatronBERT (bert_config args) (vocab_file args))"
    using assms by (simp add: model_def truthy_missing)
  have s: "(snd (script env args) = Some (FileNotFoundError megatron_msg)) =
             (missing (bert_config args) \<or> missing (bert_checkpoint args) \<or>
              missing (vocab_file args))"
    if p: "path_exists env (data_dir args)"
  proof (cases "model args")
    case (Inl e)
    then have "e = FileNotFoundError megatron_msg"
      by (simp add: model_def split: if_splits)
    then show ?thesis
      using Inl p m by (simp add: script_def)
  next
    case (Inr enc)
    then show ?thesis
      using script_after_model [OF p Inr] m by auto
  qed
  show ?thesis
    using m ok s script_encoders by blast
qed

text \<open>A Megatron run with its three files, and the same run with an empty vocabulary path.\<close>

theorem megatron_requires_files_witness:
  "pretrained_model_name megatron_args = ''megatron''
   \<and> model megatron_args = Inr (MegatronBERT (Some ''bert.json'') (Some ''vocab.txt''))
   \<and> encoders (fst (script (small_world 100) megatron_args))
       = [MegatronBERT (Some ''bert.json'') (Some ''vocab.txt'')]
   \<and> pretrained_model_name (megatron_args\<lparr>vocab_file := Some []\<rparr>) = ''megatron''
   \<and> snd (script (small_world 100) (megatron_args\<lparr>vocab_file := Some []\<rparr>))
       = Some (FileNotFoundError megatron_msg)"
  using megatron_requires_files [of megatron_args "small_world 100"]
    megatron_requires_files [of "megatron_args\<lparr>vocab_file := Some []\<rparr>" "small_world 100"]
  by (simp add: megatron_args_def default_args_def small_world_def missing_def)

text \<open>
  Claim C9.  A call of \<^verbatim>\<open>create_pipeline\<close> constructs exactly one data layer.  With
  \<^verbatim>\<open>is_training=False\<close> its \<^verbatim>\<open>shuffle\<close> is \<^verbatim>\<open>False\<close>, and two runs that differ only
  in the \<^verbatim>\<open>shuffle_data\<close> flag construct the same data layer and build the same
  pipeline; with \<^verbatim>\<open>is_training=True\<close> its \<^verbatim>\<open>shuffle\<close> is the flag.
\<close>

theorem eval_shuffle_independent:
  "fst (create_pipeline env gl n b pre tr g)
     = [Module (BertJointIntentSlotDataLayer (data_layer_of gl n b pre tr))]
   \<and> dl_shuffle (data_layer_of gl n b pre False) = False
   \<and> dl_shuffle (data_layer_of gl n b pre True) = shuffle_data (gl_args gl)
   \<and> data_layer_of (script_globals env (args\<lparr>shuffle_data := s\<rparr>) enc) n b pre False
       = data_layer_of (script_globals env args enc) n b pre False
   \<and> create_pipeline env (script_globals env (args\<lparr>shuffle_data := s\<rparr>) enc) n b pre False g
       = create_pipeline env (script_globals env args enc) n b pre False g"
proof -
  let ?gl = "script_globals env args enc"
  let ?gl' = "script_globals env (args\<lparr>shuffle_data := s\<rparr>) enc"
  have d: "data_layer_of ?gl' n b pre False = data_layer_of ?gl n b pre False"
    by (simp add: data_layer_of_def script_globals_def Let_def get_tokenizer_def)
  have m: "gl_model ?gl' = gl_model ?gl" "gl_classifier ?gl' = gl_classifier ?gl"
    "gl_intent_loss_fn ?gl' = gl_intent_loss_fn ?gl"
    "gl_slot_loss_fn ?gl' = gl_slot_loss_fn ?gl"
    "gl_total_loss_fn ?gl' = gl_total_loss_fn ?gl"
    by (simp_all add: script_globals_def Let_def classifier_def intent_loss_fn_def
        slot_loss_fn_def total_loss_fn_def)
  have "create_pipeline env ?gl' n b pre False g = create_pipeline env ?gl n b pre False g"
    using d m by (rule create_pipeline_cong)
  moreover have "dl_shuffle (data_layer_of gl n b pre False) = False"
    "dl_shuffle (data_layer_of gl n b pre True) = shuffle_data (gl_args gl)"
    by (simp_all add: data_layer_of_def)
  ultimately show ?thesis
    using d create_pipeline_constructs [of env gl n b pre tr g] by simp
qed

text \<open>
  The default \<^verbatim>\<open>--intent_loss_weight\<close>, the float nearest to 0.6, and the float of
  \<^verbatim>\<open>1e16\<close>.
\<close>

lemma default_intent_loss_weight:
  "intent_loss_weight default_args = Finite (5404319552844595 / 2 ^ 53)"
proof -
  have "round_nearest (6 / 10) = 5404319552844595 / 2 ^ 53"
    by (subst round_nearest_unfold [of "- 1"]) (simp_all add: round_half_even_def)
  then show ?thesis
    by (simp add: default_args_def float_of_real_def)
qed

lemma is_double_default_weight: "is_double (5404319552844595 / 2 ^ 53)"
  using round_nearest_exact [of 5404319552844595 "- 53"]
  by (simp add: is_double_def float_of_real_def power_int_minus_divide)

lemma round_nearest_1e16:
  "round_nearest (10 ^ 16) = 10 ^ 16"
  "round_nearest (1 - 10 ^ 16) = - (10 ^ 16)"
  by (subst round_nearest_unfold [of 53]; simp add: round_half_even_def)+




text \<open>What a call of \<^verbatim>\<open>create_pipeline\<close> that returns has built.\<close>

lemma create_pipeline_returned:
  assumes "create_pipeline env gl n b pre tr g = (c, Inr p)"
  shows "data_layer p = BertJointIntentSlotDataLayer (data_layer_of gl n b pre tr)"
    and "total_loss p =
      NmTensor (gl_total_loss_fn gl) ''loss''
        [(''loss_1'', NmTensor (gl_intent_loss_fn gl) ''loss''
            [(''logits'', NmTensor (gl_classifier gl) ''intent_logits''
                [(''hidden_states'', NmTensor (Encoder (gl_model gl)) ''hidden_states''
                    [(''input_ids'', NmTensor (data_layer p) ''input_ids'' []),
                     (''token_type_ids'', NmTensor (data_layer p) ''input_type_ids'' []),
                     (''attention_mask'', NmTensor (data_layer p) ''input_mask'' [])])]),
             (''labels'', NmTensor (data_layer p) ''intents'' [])]),
         (''loss_2'', NmTensor (gl_slot_loss_fn gl) ''loss''
            [(''logits'', NmTensor (gl_classifier gl) ''slot_logits''
                [(''hidden_states'', NmTensor (Encoder (gl_model gl)) ''hidden_states''
                    [(''input_ids'', NmTensor (data_layer p) ''input_ids'' []),
                     (''token_type_ids'', NmTensor (data_layer p) ''input_type_ids'' []),
                     (''attention_mask'', NmTensor (data_layer p) ''input_mask'' [])])]),
             (''labels'', NmTensor (data_layer p) ''slots'' []),
             (''loss_mask'', NmTensor (data_layer p) ''loss_mask'' [])])]"
  using assms by (auto simp add: create_pipeline_def Let_def split: sum.splits)

text \<open>
  Claim C7.  In every pipeline that \<^verbatim>\<open>create_pipeline\<close> returns, the graph of the
  returned total loss is wired data layer, encoder, classifier, losses, aggregator: the
  outputs of the data layer constructed by the call feed the encoder, the hidden states of
  the encoder feed the classifier, the intent and slot logits of the classifier feed the
  two cross-entropy losses (with the labels and the loss mask of the data layer), and the
  two losses feed the aggregator, which produces the total loss.  There is no other edge.
\<close>

theorem pipeline_wiring:
  assumes "create_pipeline env gl n b pre tr g = (c, Inr p)"
  shows "c = [Module (data_layer p)]
       \<and> data_layer p = BertJointIntentSlotDataLayer (data_layer_of gl n b pre tr)
       \<and> producer (total_loss p) = gl_total_loss_fn gl
       \<and> set (wiring (total_loss p)) =
           {(data_layer p, ''input_ids'', ''input_ids'', Encoder (gl_model gl)),
            (data_layer p, ''input_type_ids'', ''token_type_ids'', Encoder (gl_model gl)),
            (data_layer p, ''input_mask'', ''attention_mask'', Encoder (gl_model gl)),
            (Encoder (gl_model gl), ''hidden_states'', ''hidden_states'', gl_classifier gl),
            (gl_classifier gl, ''intent_logits'', ''logits'', gl_intent_loss_fn gl),
            (data_layer p, ''intents'', ''labels'', gl_intent_loss_fn gl),
            (gl_classifier gl, ''slot_logits'', ''logits'', gl_slot_loss_fn gl),
            (data_layer p, ''slots'', ''labels'', gl_slot_loss_fn gl),
            (data_layer p, ''loss_mask'', ''loss_mask'', gl_slot_loss_fn gl),
            (gl_intent_loss_fn gl, ''loss'', ''loss_1'', gl_total_loss_fn gl),
            (gl_slot_loss_fn gl, ''loss'', ''loss_2'', gl_total_loss_fn gl)}"
proof -
  note r = create_pipeline_returned [OF assms]
  have c: "c = [Module (data_layer p)]"
    using create_pipeline_fst [OF assms] r(1) by simp
  have w: "wiring (total_loss p) =
     [(data_layer p, ''input_ids'', ''input_ids'', Encoder (gl_model gl)),
      (data_layer p, ''input_type_ids'', ''token_type_ids'', Encoder (gl_model gl)),
      (data_layer p, ''input_mask'', ''attention_mask'', Encoder (gl_model gl)),
      (Encoder (gl_model gl), ''hidden_states'', ''hidden_states'', gl_classifier gl),
      (gl_classifier gl, ''intent_logits'', ''logits'', gl_intent_loss_fn gl),
      (data_layer p, ''intents'', ''labels'', gl_intent_loss_fn gl),
      (gl_intent_loss_fn gl, ''loss'', ''loss_1'', gl_total_loss_fn gl),
      (data_layer p, ''input_ids'', ''input_ids'', Encoder (gl_model gl)),
      (data_layer p, ''input_type_ids'', ''token_type_ids'', Encoder (gl_model gl)),
      (data_layer p, ''input_mask'', ''attention_mask'', Encoder (gl_model gl)),
      (Encoder (gl_model gl), ''hidden_states'', ''hidden_states'', gl_classifier gl),
      (gl_classifier gl, ''slot_logits'', ''logits'', gl_slot_loss_fn gl),
      (data_layer p, ''slots'', ''labels'', gl_slot_loss_fn gl),
      (data_layer p, ''loss_mask'', ''loss_mask'', gl_slot_loss_fn gl),
      (gl_slot_loss_fn gl, ''loss'', ''loss_2'', gl_total_loss_fn gl)]"
    by (simp only: r(2) wiring.simps list.map concat.simps append.simps fst_conv snd_conv
        nmtensor.sel)
  have s: "set (wiring (total_loss p)) =
           {(data_layer p, ''input_ids'', ''input_ids'', Encoder (gl_model gl)),
            (data_layer p, ''input_type_ids'', ''token_type_ids'', Encoder (gl_model gl)),
            (data_layer p, ''input_mask'', ''attention_mask'', Encoder (gl_model gl)),
            (Encoder (gl_model gl), ''hidden_states'', ''hidden_states'', gl_classifier gl),
            (gl_classifier gl, ''intent_logits'', ''logits'', gl_intent_loss_fn gl),
            (data_layer p, ''intents'', ''labels'', gl_intent_loss_fn gl),
            (gl_classifier gl, ''slot_logits'', ''logits'', gl_slot_loss_fn gl),
            (data_layer p, ''slots'', ''labels'', gl_slot_loss_fn gl),
            (data_layer p, ''loss_mask'', ''loss_mask'', gl_slot_loss_fn gl),
            (gl_intent_loss_fn gl, ''loss'', ''loss_1'', gl_total_loss_fn gl),
            (gl_slot_loss_fn gl, ''loss'', ''loss_2'', gl_total_loss_fn gl)}"
    by (simp only: w list.set insert_commute insert_absorb2)
  have "producer (total_loss p) = gl_total_loss_fn gl"
    by (simp only: r(2) nmtensor.sel)
  then show ?thesis
    using c r(1) s by blast
qed

text \<open>The training pipeline of a default run over 100 examples.\<close>

theorem pipeline_wiring_witness:
  "\<exists>c p. create_pipeline (small_world 100)
            (script_globals (small_world 100) default_args
               (HuggingfaceModel None ''bert-base-uncased'')) (- 1) 128 ''train'' True 1
          = (c, Inr p)
        \<and> c = [Module (data_layer p)]
        \<and> producer (total_loss p) = total_loss_fn default_args
        \<and> (Encoder (HuggingfaceModel None ''bert-base-uncased''), ''hidden_states'',
            ''hidden_states'', classifier default_args 768 atis_desc)
             \<in> set (wiring (total_loss p))"
proof -
  let ?gl = "script_globals (small_world 100) default_args
               (HuggingfaceModel None ''bert-base-uncased'')"
  obtain c p where cp:
    "create_pipeline (small_world 100) ?gl (- 1) 128 ''train'' True 1 = (c, Inr p)"
    by (simp add: create_pipeline_def Let_def small_world_def true_div_steps)
  have gl: "gl_total_loss_fn ?gl = total_loss_fn default_args"
    "gl_model ?gl = HuggingfaceModel None ''bert-base-uncased''"
    "gl_classifier ?gl = classifier default_args 768 atis_desc"
    by (simp_all add: script_globals_def Let_def small_world_def)
  note w = pipeline_wiring [OF cp]
  have 1: "c = [Module (data_layer p)]"
    using w by (rule conjunct1)
  have 2: "producer (total_loss p) = total_loss_fn default_args"
    using w [THEN conjunct2, THEN conjunct2, THEN conjunct1] by (simp only: gl)
  have 3: "(Encoder (HuggingfaceModel None ''bert-base-uncased''), ''hidden_states'',
            ''hidden_states'', classifier default_args 768 atis_desc)
             \<in> set (wiring (total_loss p))"
    unfolding w [THEN conjunct2, THEN conjunct2, THEN conjunct2] gl
    by (simp only: insert_iff simp_thms)
  show ?thesis
    using cp 1 2 3 by (intro exI conjI)
qed

section \<open>Where the number of GPUs goes\<close>

text \<open>
  \<^verbatim>\<open>args.num_gpus\<close> is read in one place, the two calls of \<^verbatim>\<open>create_pipeline\<close>,
  where it enters the divisor of line 195: nothing else the script constructs depends on
  it, and of a pipeline only \<^verbatim>\<open>steps_per_epoch\<close> does.
\<close>

lemma step_freqs_append: "step_freqs (xs @ ys) = step_freqs xs @ step_freqs ys"
  by (induction xs rule: step_freqs.induct) simp_all

lemma num_gpus_irrelevant:
  "nf (args\<lparr>num_gpus := g\<rparr>) = nf args"
  "model (args\<lparr>num_gpus := g\<rparr>) = model args"
  "get_tokenizer (args\<lparr>num_gpus := g\<rparr>) = get_tokenizer args"
  "ckpt_callback env (args\<lparr>num_gpus := g\<rparr>) = ckpt_callback env args"
  "train_callback (args\<lparr>num_gpus := g\<rparr>) p = train_callback args p"
  "lr_policy_fn (args\<lparr>num_gpus := g\<rparr>) p = lr_policy_fn args p"
  "script_globals env (args\<lparr>num_gpus := g\<rparr>) enc
     = (script_globals env args enc)\<lparr>gl_args := args\<lparr>num_gpus := g\<rparr>\<rparr>"
  "gl_args (script_globals env args enc) = args"
  by (simp_all add: nf_def model_def get_tokenizer_def ckpt_callback_def train_callback_def
      lr_policy_fn_def script_globals_def Let_def classifier_def intent_loss_fn_def
      slot_loss_fn_def total_loss_fn_def)

lemma num_gpus_irrelevant_gl:
  "eval_callback env (args\<lparr>num_gpus := g\<rparr>) (gl\<lparr>gl_args := a\<rparr>) p q
     = eval_callback env args gl p q"
  "nf_train env (args\<lparr>num_gpus := g\<rparr>) (gl\<lparr>gl_args := a\<rparr>) p q = nf_train env args gl p q"
  "data_layer_of (gl\<lparr>gl_args := (gl_args gl)\<lparr>num_gpus := g\<rparr>\<rparr>) n b pre tr
     = data_layer_of gl n b pre tr"
  by (cases tr; simp add: eval_callback_def nf_train_def num_gpus_irrelevant data_layer_of_def)+

lemma steps_irrelevant:
  "eval_callback env args gl p (q\<lparr>steps_per_epoch := x\<rparr>) = eval_callback env args gl p q"
  "nf_train env args gl p (q\<lparr>steps_per_epoch := x\<rparr>) = nf_train env args gl p q"
  by (simp_all add: eval_callback_def nf_train_def)

lemma create_pipeline_num_gpus:
  assumes "create_pipeline env gl n b pre t g = (c, Inr p)"
    and "create_pipeline env (gl\<lparr>gl_args := (gl_args gl)\<lparr>num_gpus := x\<rparr>\<rparr>) n b pre t g'
           = (c', Inr p')"
  shows "c' = c" and "p' = p\<lparr>steps_per_epoch := steps_per_epoch p'\<rparr>"
  using assms
  by (auto simp add: create_pipeline_def Let_def num_gpus_irrelevant_gl split: sum.splits)


lemma script_completed_cases:
  assumes "script env args = (tr, None)"
  shows "\<exists>enc c1 train c2 eval.
           path_exists env (data_dir args) \<and> model args = Inr enc \<and>
           create_pipeline env (script_globals env args enc) (num_train_samples args)
             (batch_size args) (train_file_prefix args) True (num_gpus args) = (c1, Inr train) \<and>
           create_pipeline env (script_globals env args enc) (num_eval_samples args)
             (batch_size args) (eval_file_prefix args) False (num_gpus args) = (c2, Inr eval) \<and>
           tr = [Factory (nf args), Module (Encoder enc), Tokenizer (get_tokenizer args)] @
                (if truthy (bert_checkpoint args) then [RestoreFrom enc (bert_checkpoint args)]
                 else []) @
                [DataDesc (gl_data_desc (script_globals env args enc)),
                 Module (gl_classifier (script_globals env args enc)),
                 Module (gl_intent_loss_fn (script_globals env args enc)),
                 Module (gl_slot_loss_fn (script_globals env args enc)),
                 Module (gl_total_loss_fn (script_globals env args enc))] @
                c1 @ c2 @
                [Callback (train_callback args train),
                 Callback (eval_callback env args (script_globals env args enc) train eval),
                 Callback (ckpt_callback env args),
                 LrPolicy (lr_policy_fn args train),
                 Train (nf_train env args (script_globals env args enc) train eval)]"
  using assms
  by (auto simp add: script_def Let_def split: if_splits sum.splits prod.splits)


lemma step_freqs_completed:
  assumes "c1 = [Module m1]" and "c2 = [Module m2]"
  shows "step_freqs
           ([Factory f, Module e, Tokenizer t] @
            (if r then [RestoreFrom enc ck] else []) @
            [DataDesc d, Module x1, Module x2, Module x3, Module x4] @ c1 @ c2 @
            [Callback (train_callback args train), Callback (eval_callback env args gl train eval),
             Callback (ckpt_callback env args), LrPolicy l, Train k])
         = [steps_per_epoch train]"
  using assms
  by (simp add: train_callback_def eval_callback_def ckpt_callback_def)

lemma num_gpus_only_through_steps:
  assumes a: "script env args = (tr, None)"
    and b: "script env (args\<lparr>num_gpus := g\<rparr>) = (tr', None)"
    and c: "step_freqs tr' = step_freqs tr"
  shows "tr' = tr"
proof -
  from script_completed_cases [OF a] obtain enc c1 train c2 eval where
    m: "model args = Inr enc" and
    p1: "create_pipeline env (script_globals env args enc) (num_train_samples args)
           (batch_size args) (train_file_prefix args) True (num_gpus args) = (c1, Inr train)" and
    p2: "create_pipeline env (script_globals env args enc) (num_eval_samples args)
           (batch_size args) (eval_file_prefix args) False (num_gpus args) = (c2, Inr eval)" and
    tr: "tr = [Factory (nf args), Module (Encoder enc), Tokenizer (get_tokenizer args)] @
                (if truthy (bert_checkpoint args) then [RestoreFrom enc (bert_checkpoint args)]
                 else []) @
                [DataDesc (gl_data_desc (script_globals env args enc)),
                 Module (gl_classifier (script_globals env args enc)),
                 Module (gl_intent_loss_fn (script_globals env args enc)),
                 Module (gl_slot_loss_fn (script_globals env args enc)),
                 Module (gl_total_loss_fn (script_globals env args enc))] @
                c1 @ c2 @
                [Callback (train_callback args train),
                 Callback (eval_callback env args (script_globals env args enc) train eval),
                 Callback (ckpt_callback env args),
                 LrPolicy (lr_policy_fn args train),
                 Train (nf_train env args (script_globals env args enc) train eval)]"
    by blast
  let ?gl = "script_globals env args enc"
  let ?gl' = "?gl\<lparr>gl_args := (gl_args ?gl)\<lparr>num_gpus := g\<rparr>\<rparr>"
  have gl': "script_globals env (args\<lparr>num_gpus := g\<rparr>) enc = ?gl'"
    by (simp add: num_gpus_irrelevant)
  from script_completed_cases [OF b] obtain enc' c1' train' c2' eval' where
    m': "model (args\<lparr>num_gpus := g\<rparr>) = Inr enc'" and
    p1': "create_pipeline env (script_globals env (args\<lparr>num_gpus := g\<rparr>) enc')
            (num_train_samples (args\<lparr>num_gpus := g\<rparr>)) (batch_size (args\<lparr>num_gpus := g\<rparr>))
            (train_file_prefix (args\<lparr>num_gpus := g\<rparr>)) True (num_gpus (args\<lparr>num_gpus := g\<rparr>))
          = (c1', Inr train')" and
    p2': "create_pipeline env (script_globals env (args\<lparr>num_gpus := g\<rparr>) enc')
            (num_eval_samples (args\<lparr>num_gpus := g\<rparr>)) (batch_size (args\<lparr>num_gpus := g\<rparr>))
            (eval_file_prefix (args\<lparr>num_gpus := g\<rparr>)) False (num_gpus (args\<lparr>num_gpus := g\<rparr>))
          = (c2', Inr eval')" and
    tr': "tr' = [Factory (nf (args\<lparr>num_gpus := g\<rparr>)), Module (Encoder enc'),
                 Tokenizer (get_tokenizer (args\<lparr>num_gpus := g\<rparr>))] @
                (if truthy (bert_checkpoint (args\<lparr>num_gpus := g\<rparr>))
                 then [RestoreFrom enc' (bert_checkpoint (args\<lparr>num_gpus := g\<rparr>))]
                 else []) @
                [DataDesc (gl_data_desc (script_globals env (args\<lparr>num_gpus := g\<rparr>) enc')),
                 Module (gl_classifier (script_globals env (args\<lparr>num_gpus := g\<rparr>) enc')),
                 Module (gl_intent_loss_fn (script_globals env (args\<lparr>num_gpus := g\<rparr>) enc')),
                 Module (gl_slot_loss_fn (script_globals env (args\<lparr>num_gpus := g\<rparr>) enc')),
                 Module (gl_total_loss_fn (script_globals env (args\<lparr>num_gpus := g\<rparr>) enc'))] @
                c1' @ c2' @
                [Callback (train_callback (args\<lparr>num_gpus := g\<rparr>) train'),
                 Callback (eval_callback env (args\<lparr>num_gpus := g\<rparr>)
                   (script_globals env (args\<lparr>num_gpus := g\<rparr>) enc') train' eval'),
                 Callback (ckpt_callback env (args\<lparr>num_gpus := g\<rparr>)),
                 LrPolicy (lr_policy_fn (args\<lparr>num_gpus := g\<rparr>) train'),
                 Train (nf_train env (args\<lparr>num_gpus := g\<rparr>)
                   (script_globals env (args\<lparr>num_gpus := g\<rparr>) enc') train' eval')]"
    by blast
  have enc: "enc' = enc"
    using m m' by (simp add: num_gpus_irrelevant)
  have q1: "create_pipeline env ?gl' (num_train_samples args) (batch_size args)
              (train_file_prefix args) True g = (c1', Inr train')"
    using p1' by (simp add: enc num_gpus_irrelevant)
  have q2: "create_pipeline env ?gl' (num_eval_samples args) (batch_size args)
              (eval_file_prefix args) False g = (c2', Inr eval')"
    using p2' by (simp add: enc num_gpus_irrelevant)
  note t = create_pipeline_num_gpus [OF p1 q1]
  note e = create_pipeline_num_gpus [OF p2 q2]
  have tr'2: "tr' = [Factory (nf args), Module (Encoder enc), Tokenizer (get_tokenizer args)] @
                (if truthy (bert_checkpoint args) then [RestoreFrom enc (bert_checkpoint args)]
                 else []) @
                [DataDesc (gl_data_desc ?gl), Module (gl_classifier ?gl),
                 Module (gl_intent_loss_fn ?gl), Module (gl_slot_loss_fn ?gl),
                 Module (gl_total_loss_fn ?gl)] @
                c1 @ c2 @
                [Callback (train_callback args train'),
                 Callback (eval_callback env args ?gl train' eval),
                 Callback (ckpt_callback env args),
                 LrPolicy (lr_policy_fn args train'),
                 Train (nf_train env args ?gl train' eval)]"
  proof -
    have "eval_callback env args ?gl train' eval' = eval_callback env args ?gl train' eval"
      by (subst e(2)) (rule steps_irrelevant)
    moreover have "nf_train env args ?gl train' eval' = nf_train env args ?gl train' eval"
      by (subst e(2)) (rule steps_irrelevant)
    ultimately show ?thesis
      unfolding tr' enc
      by (simp add: num_gpus_irrelevant num_gpus_irrelevant_gl t(1) e(1))
  qed
  have f1: "c1 = [Module (BertJointIntentSlotDataLayer (data_layer_of ?gl (num_train_samples args)
              (batch_size args) (train_file_prefix args) True))]"
    using p1 by (rule create_pipeline_fst)
  have f2: "c2 = [Module (BertJointIntentSlotDataLayer (data_layer_of ?gl (num_eval_samples args)
              (batch_size args) (eval_file_prefix args) False))]"
    using p2 by (rule create_pipeline_fst)
  have "step_freqs tr = [steps_per_epoch train]"
    unfolding tr by (rule step_freqs_completed [OF f1 f2])
  moreover have "step_freqs tr' = [steps_per_epoch train']"
    unfolding tr'2 by (rule step_freqs_completed [OF f1 f2])
  ultimately have "steps_per_epoch train' = steps_per_epoch train"
    using c by simp
  then have "train' = train"
    using t(2) by simp
  then show ?thesis
    unfolding tr tr'2 by simp
qed


text \<open>A run whose two pipelines are built completes; its loss logger steps once an epoch.\<close>

lemma script_completes:
  assumes "path_exists env (data_dir args)" and "model args = Inr enc"
    and "create_pipeline env (script_globals env args enc) (num_train_samples args)
           (batch_size args) (train_file_prefix args) True (num_gpus args) = (c1, Inr train)"
    and "create_pipeline env (script_globals env args enc) (num_eval_samples args)
           (batch_size args) (eval_file_prefix args) False (num_gpus args) = (c2, Inr eval)"
  shows "snd (script env args) = None"
    and "step_freqs (fst (script env args)) = [steps_per_epoch train]"
proof -
  note f1 = create_pipeline_fst [OF assms(3)] and f2 = create_pipeline_fst [OF assms(4)]
  show "snd (script env args) = None"
    using assms by (simp add: script_def Let_def)
  show "step_freqs (fst (script env args)) = [steps_per_epoch train]"
    using assms f1 f2
    by (simp add: script_def Let_def step_freqs_append train_callback_def eval_callback_def
        ckpt_callback_def)
qed

lemma script_run:
  assumes "path_exists env (data_dir args)" and "model args = Inr enc"
    and "0 < data_layer_len env (data_layer_of (script_globals env args enc)
           (num_train_samples args) (batch_size args) (train_file_prefix args) True)"
    and "data_layer_len env (data_layer_of (script_globals env args enc)
           (num_train_samples args) (batch_size args) (train_file_prefix args) True) < 2 ^ 53"
    and "0 < data_layer_len env (data_layer_of (script_globals env args enc)
           (num_eval_samples args) (batch_size args) (eval_file_prefix args) False)"
    and "data_layer_len env (data_layer_of (script_globals env args enc)
           (num_eval_samples args) (batch_size args) (eval_file_prefix args) False) < 2 ^ 53"
    and "0 < batch_size args" and "0 < num_gpus args"
    and "batch_size args * num_gpus args < 2 ^ 1075"
  shows "snd (script env args) = None"
    and "step_freqs (fst (script env args)) =
           [\<lceil>real (data_layer_len env (data_layer_of (script_globals env args enc)
                (num_train_samples args) (batch_size args) (train_file_prefix args) True))
              / real_of_int (batch_size args * num_gpus args)\<rceil>]"
proof -
  obtain train where t: "create_pipeline env (script_globals env args enc)
      (num_train_samples args) (batch_size args) (train_file_prefix args) True (num_gpus args)
      = ([Module (BertJointIntentSlotDataLayer (data_layer_of (script_globals env args enc)
           (num_train_samples args) (batch_size args) (train_file_prefix args) True))],
         Inr train)"
    and st: "steps_per_epoch train =
      \<lceil>real (data_layer_len env (data_layer_of (script_globals env args enc)
           (num_train_samples args) (batch_size args) (train_file_prefix args) True))
         / real_of_int (batch_size args * num_gpus args)\<rceil>"
    using create_pipeline_steps [OF assms(3,4,7,8,9)] by blast
  obtain eval where e: "create_pipeline env (script_globals env args enc)
      (num_eval_samples args) (batch_size args) (eval_file_prefix args) False (num_gpus args)
      = ([Module (BertJointIntentSlotDataLayer (data_layer_of (script_globals env args enc)
           (num_eval_samples args) (batch_size args) (eval_file_prefix args) False))],
         Inr eval)"
    using create_pipeline_steps [OF assms(5,6,7,8,9)] by blast
  show "snd (script env args) = None"
    using assms(1,2) t e by (rule script_completes(1))
  show "step_freqs (fst (script env args)) =
           [\<lceil>real (data_layer_len env (data_layer_of (script_globals env args enc)
                (num_train_samples args) (batch_size args) (train_file_prefix args) True))
              / real_of_int (batch_size args * num_gpus args)\<rceil>]"
    using script_completes(2) [OF assms(1,2) t e] st by simp
qed

text \<open>
  Claim C8, as amended.  \<^verbatim>\<open>--local_rank\<close> and \<^verbatim>\<open>--amp_opt_level\<close> are passed
  unchanged to the \<^verbatim>\<open>NeuralModuleFactory\<close>, the first object a run constructs.
  \<^verbatim>\<open>--num_gpus\<close> is not passed to \<^verbatim>\<open>nf.train\<close>: it is an argument of
  \<^verbatim>\<open>create_pipeline\<close> only, and two completed runs that differ in nothing but
  \<^verbatim>\<open>--num_gpus\<close> and have the same steps per epoch construct the same objects with the
  same arguments, the call of \<^verbatim>\<open>nf.train\<close> included.
\<close>

theorem flags_forwarded:
  "nf_local_rank (nf args) = local_rank args
   \<and> nf_optimization_level (nf args) = amp_opt_level args
   \<and> (path_exists env (data_dir args) \<longrightarrow>
        (\<exists>rest. fst (script env args) = Factory (nf args) # rest))
   \<and> (script env args = (tr, None) \<and> script env (args\<lparr>num_gpus := g\<rparr>) = (tr', None) \<and>
      step_freqs tr' = step_freqs tr \<longrightarrow> tr' = tr)"
proof (intro conjI impI)
  show "nf_local_rank (nf args) = local_rank args"
    by (simp add: nf_def)
  show "nf_optimization_level (nf args) = amp_opt_level args"
    by (simp add: nf_def)
next
  assume "path_exists env (data_dir args)"
  then show "\<exists>rest. fst (script env args) = Factory (nf args) # rest"
    by (auto simp add: script_def Let_def split: sum.splits prod.splits)
next
  assume "script env args = (tr, None) \<and> script env (args\<lparr>num_gpus := g\<rparr>) = (tr', None) \<and>
      step_freqs tr' = step_freqs tr"
  then show "tr' = tr"
    using num_gpus_only_through_steps by blast
qed

text \<open>
  A run of 1000 examples in batches of 128 takes two steps an epoch on four GPUs and on
  five.
\<close>

theorem flags_forwarded_witness:
  "path_exists (small_world 1000) (data_dir (default_args\<lparr>num_gpus := 4\<rparr>))
   \<and> (\<exists>rest. fst (script (small_world 1000) (default_args\<lparr>num_gpus := 4\<rparr>))
               = Factory (nf (default_args\<lparr>num_gpus := 4\<rparr>)) # rest)
   \<and> snd (script (small_world 1000) (default_args\<lparr>num_gpus := 4\<rparr>)) = None
   \<and> snd (script (small_world 1000) (default_args\<lparr>num_gpus := 5\<rparr>)) = None
   \<and> step_freqs (fst (script (small_world 1000) (default_args\<lparr>num_gpus := 4\<rparr>))) = [2]
   \<and> step_freqs (fst (script (small_world 1000) (default_args\<lparr>num_gpus := 5\<rparr>))) = [2]
   \<and> fst (script (small_world 1000) (default_args\<lparr>num_gpus := 5\<rparr>))
       = fst (script (small_world 1000) (default_args\<lparr>num_gpus := 4\<rparr>))"
proof -
  let ?e = "small_world 1000"
  let ?a = "default_args\<lparr>num_gpus := 4\<rparr>"
  let ?b = "default_args\<lparr>num_gpus := 5\<rparr>"
  let ?enc = "HuggingfaceModel None ''bert-base-uncased''"
  have ab: "?a\<lparr>num_gpus := 5\<rparr> = ?b" by simp
  have p: "path_exists ?e (data_dir ?a)" by (simp add: small_world_def)
  have a: "snd (script ?e ?a) = None" "step_freqs (fst (script ?e ?a)) = [2]"
    using script_run [of ?e ?a ?enc]
    by (simp_all add: small_world_def default_args_def model_def)
  have b: "snd (script ?e ?b) = None" "step_freqs (fst (script ?e ?b)) = [2]"
    using script_run [of ?e ?b ?enc]
    by (simp_all add: small_world_def default_args_def model_def)
  have sa: "script ?e ?a = (fst (script ?e ?a), None)"
    using a(1) by (simp add: prod_eq_iff)
  have sb: "script ?e (?a\<lparr>num_gpus := 5\<rparr>) = (fst (script ?e ?b), None)"
    unfolding ab using b(1) by (simp add: prod_eq_iff)
  have fr: "step_freqs (fst (script ?e ?b)) = step_freqs (fst (script ?e ?a))"
    using a(2) b(2) by simp
  note t = flags_forwarded [of ?a ?e "fst (script ?e ?a)" 5 "fst (script ?e ?b)"]
  have 1: "\<exists>rest. fst (script ?e ?a) = Factory (nf ?a) # rest"
    using t p by blast
  have 2: "fst (script ?e ?b) = fst (script ?e ?a)"
    using t sa sb fr by blast
  show ?thesis
    using p 1 a(1) b(1) a(2) b(2) 2 by (intro conjI)
qed

text \<open>
  Claim C8 as stated fails.  On 100 examples the run with \<^verbatim>\<open>--num_gpus 2\<close> is the run
  with the default of one GPU: the same objects with the same arguments, so the call of
  \<^verbatim>\<open>nf.train\<close> has received nothing of the number of GPUs.
\<close>

theorem num_gpus_not_forwarded:
  "num_gpus (default_args\<lparr>num_gpus := 2\<rparr>) \<noteq> num_gpus default_args
   \<and> snd (script (small_world 100) default_args) = None
   \<and> script (small_world 100) (default_args\<lparr>num_gpus := 2\<rparr>)
       = script (small_world 100) default_args"
proof -
  let ?e = "small_world 100"
  let ?a = "default_args"
  let ?b = "default_args\<lparr>num_gpus := 2\<rparr>"
  let ?enc = "HuggingfaceModel None ''bert-base-uncased''"
  have n: "num_gpus ?b \<noteq> num_gpus ?a" by (simp add: default_args_def)
  have a: "snd (script ?e ?a) = None" "step_freqs (fst (script ?e ?a)) = [1]"
    using script_run [of ?e ?a ?enc]
    by (simp_all add: small_world_def default_args_def model_def)
  have b: "snd (script ?e ?b) = None" "step_freqs (fst (script ?e ?b)) = [1]"
    using script_run [of ?e ?b ?enc]
    by (simp_all add: small_world_def default_args_def model_def)
  have sa: "script ?e ?a = (fst (script ?e ?a), None)"
    using a(1) by (simp add: prod_eq_iff)
  have sb: "script ?e ?b = (fst (script ?e ?b), None)"
    using b(1) by (simp add: prod_eq_iff)
  have fr: "step_freqs (fst (script ?e ?b)) = step_freqs (fst (script ?e ?a))"
    using a(2) b(2) by simp
  have "fst (script ?e ?b) = fst (script ?e ?a)"
    using sa sb fr by (rule num_gpus_only_through_steps)
  then have "script ?e ?b = script ?e ?a"
    using a(1) b(1) by (simp add: prod_eq_iff)
  then show ?thesis
    using n a(1) by (intro conjI)
qed

end
